theory Spec2Isabelle
  imports Complex_Main
begin

section \<open>JavaScript values used by the generators\<close>

subsection \<open>Numbers in template literals\<close>

text \<open>
  The generators interpolate numbers into template literals (\<^verbatim>\<open>${baseHue}\<close>,
  \<^verbatim>\<open>${index + 1}\<close>). Every number the program interpolates is an integer: array
  indices, integer literals, and \<^verbatim>\<open>Math.floor\<close> of a random draw. An integer of
  magnitude below \<open>10^21\<close> is rendered by JavaScript in plain decimal notation, with a
  leading minus sign when negative; \<open>num\<close> is that rendering. Strings are byte
  sequences (the UTF-8 text), which is exact for the ASCII text the program writes.
\<close>

definition digit_char :: "nat \<Rightarrow> char" where
  "digit_char d = ''0123456789'' ! d"

fun show_nat :: "nat \<Rightarrow> string" where
  "show_nat n = (if n < 10 then [digit_char n] else show_nat (n div 10) @ [digit_char (n mod 10)])"

declare show_nat.simps [simp del]

definition num :: "int \<Rightarrow> string" where
  "num i = (if i < 0 then ''-'' @ show_nat (nat (- i)) else show_nat (nat i))"

subsection \<open>Objects as ordered property lists\<close>

text \<open>
  A JavaScript object is modelled by the list of its own properties in the order
  \<^verbatim>\<open>Object.entries\<close>, \<^verbatim>\<open>Object.keys\<close>, spread and \<^verbatim>\<open>JSON.stringify\<close> visit
  them: array-index keys (canonical decimal numerals below \<open>2^32 - 1\<close>) first, in
  ascending numeric order, then every other key in the order of creation. Assigning to
  an existing key keeps its position. \<open>obj_put\<close> is the assignment \<^verbatim>\<open>ob[k] = v\<close> and
  the definition of a computed key in an object literal (the key \<^verbatim>\<open>__proto__\<close>, on which
  the two differ, is none of the keys the program assigns).
\<close>

type_synonym 'v obj = "(string \<times> 'v) list"

definition is_digit :: "char \<Rightarrow> bool" where
  "is_digit c = (c \<in> set ''0123456789'')"

definition digit_val :: "char \<Rightarrow> nat" where
  "digit_val c = of_char c - 48"

definition parse_nat :: "string \<Rightarrow> nat" where
  "parse_nat s = foldl (\<lambda>a c. 10 * a + digit_val c) 0 s"

definition is_array_index :: "string \<Rightarrow> bool" where
  "is_array_index k =
     (k \<noteq> [] \<and> list_all is_digit k \<and> (k = ''0'' \<or> hd k \<noteq> CHR ''0'') \<and>
      parse_nat k < 4294967295)"

fun insert_index :: "string \<Rightarrow> 'v \<Rightarrow> 'v obj \<Rightarrow> 'v obj" where
  "insert_index k v [] = [(k, v)]"
| "insert_index k v ((k', v') # rest) =
     (if is_array_index k' \<and> parse_nat k' < parse_nat k
      then (k', v') # insert_index k v rest
      else (k, v) # (k', v') # rest)"

definition obj_put :: "'v obj \<Rightarrow> string \<Rightarrow> 'v \<Rightarrow> 'v obj" where
  "obj_put ob k v =
     (if k \<in> fst ` set ob then map (\<lambda>(k', v'). if k' = k then (k', v) else (k', v')) ob
      else if is_array_index k then insert_index k v ob
      else ob @ [(k, v)])"

text \<open>An object literal defines its properties one after the other, from left to right.\<close>

definition obj_literal :: "(string \<times> 'v) list \<Rightarrow> 'v obj" where
  "obj_literal kvs = foldl (\<lambda>ob (k, v). obj_put ob k v) [] kvs"

text \<open>A sequence of assignments, as a loop over the pairs makes them.\<close>

definition obj_put_all :: "'v obj \<Rightarrow> (string \<times> 'v) list \<Rightarrow> 'v obj" where
  "obj_put_all ob kvs = foldl (\<lambda>ob (k, v). obj_put ob k v) ob kvs"

section \<open>Palette generator (DesignSystemGenerator.tsx)\<close>

type_synonym ColorShade = "string obj"

type_synonym ColorPalette = "ColorShade obj"

definition generateColorShade :: "int \<Rightarrow> int \<Rightarrow> ColorShade" where
  "generateColorShade baseHue saturation = obj_literal
     [(''50'', ''hsl('' @ num baseHue @ '', '' @ num (max (saturation - 40) 10) @ ''%, 95%)''),
      (''100'', ''hsl('' @ num baseHue @ '', '' @ num (max (saturation - 30) 15) @ ''%, 90%)''),
      (''200'', ''hsl('' @ num baseHue @ '', '' @ num (max (saturation - 20) 20) @ ''%, 80%)''),
      (''300'', ''hsl('' @ num baseHue @ '', '' @ num (max (saturation - 10) 25) @ ''%, 70%)''),
      (''400'', ''hsl('' @ num baseHue @ '', '' @ num saturation @ ''%, 60%)''),
      (''500'', ''hsl('' @ num baseHue @ '', '' @ num saturation @ ''%, 50%)''),
      (''600'', ''hsl('' @ num baseHue @ '', '' @ num saturation @ ''%, 40%)''),
      (''700'', ''hsl('' @ num baseHue @ '', '' @ num (min (saturation + 10) 100) @ ''%, 30%)''),
      (''800'', ''hsl('' @ num baseHue @ '', '' @ num (min (saturation + 20) 100) @ ''%, 20%)''),
      (''900'', ''hsl('' @ num baseHue @ '', '' @ num (min (saturation + 30) 100) @ ''%, 10%)'')]"

text \<open>
  The colour text of a hue/saturation/lightness triple, \<^verbatim>\<open>hsl(H, S%, L%)\<close>: the
  reading of a shade entry used to state what \<open>generateColorShade\<close> returns.
\<close>

definition hsl :: "int \<Rightarrow> int \<Rightarrow> int \<Rightarrow> string" where
  "hsl h s l = ''hsl('' @ num h @ '', '' @ num s @ ''%, '' @ num l @ ''%)''"

text \<open>
  Reading a colour text back: the three numbers of a text \<^verbatim>\<open>hsl(H, S%, L%)\<close> written
  with non-negative integers, and \<open>None\<close> for a text of any other shape. The
  specification takes the three numbers of an entry as the contract; \<open>read_hsl\<close> states
  them for the texts that \<open>generateColorShade\<close> returns.
\<close>

definition read_hsl :: "string \<Rightarrow> (int \<times> int \<times> int) option" where
  "read_hsl t =
     (let t1 = drop 4 t; hue = takeWhile is_digit t1; t2 = dropWhile is_digit t1;
          t3 = drop 2 t2; sat = takeWhile is_digit t3; t4 = dropWhile is_digit t3;
          t5 = drop 3 t4; light = takeWhile is_digit t5; t6 = dropWhile is_digit t5
      in if take 4 t = ''hsl('' \<and> hue \<noteq> [] \<and> take 2 t2 = '', '' \<and> sat \<noteq> [] \<and>
            take 3 t4 = ''%, '' \<and> light \<noteq> [] \<and> t6 = ''%)''
         then Some (int (parse_nat hue), int (parse_nat sat), int (parse_nat light))
         else None)"

text \<open>
  \<open>generateRandomPalette\<close> draws \<^verbatim>\<open>Math.random()\<close> once; the draw, a number in
  \<open>[0,1)\<close>, is the parameter \<open>random\<close>. The hue is then a non-negative integer, on
  which the remainder \<^verbatim>\<open>%\<close> of JavaScript is \<open>mod\<close>.
\<close>

definition generateRandomPalette :: "real \<Rightarrow> ColorPalette" where
  "generateRandomPalette random =
     (let primaryHue = \<lfloor>random * 360\<rfloor>;
          secondaryHue = (primaryHue + 180) mod 360;
          accentHue = (primaryHue + 120) mod 360
      in obj_literal
        [(''primary'', generateColorShade primaryHue 70),
         (''secondary'', generateColorShade secondaryHue 60),
         (''accent'', generateColorShade accentHue 80),
         (''neutral'', generateColorShade 0 5),
         (''success'', generateColorShade 120 60),
         (''warning'', generateColorShade 45 80),
         (''error'', generateColorShade 0 70)])"

section \<open>Component generator (ComponentGenerator.tsx)\<close>

subsection \<open>Configuration and template registry\<close>

text \<open>
  At run time \<open>type\<close> is a string: the \<^verbatim>\<open>switch\<close> statements have a
  \<^verbatim>\<open>default\<close> branch for a value outside the five declared ones. The values of
  \<open>props\<close> are the booleans that \<open>updateProp\<close> stores.
\<close>

record ComponentConfig =
  type_c :: string
  variant :: string
  size_c :: string
  text_c :: string
  props :: "bool obj"

record ComponentTemplate =
  variants :: "string list"
  sizes :: "string list"
  defaultText :: string
  props_t :: "string list"

definition componentTemplates :: "ComponentTemplate obj" where
  "componentTemplates = obj_literal
     [(''button'',
         \<lparr>variants = [''primary'', ''secondary'', ''outline'', ''destructive''],
          sizes = [''sm'', ''md'', ''lg''],
          defaultText = ''Click me'',
          props_t = [''disabled'', ''loading'']\<rparr>),
      (''card'',
         \<lparr>variants = [''default'', ''outlined''],
          sizes = [''sm'', ''md'', ''lg''],
          defaultText = ''Card Title'',
          props_t = [''shadow'', ''hover'']\<rparr>),
      (''input'',
         \<lparr>variants = [''default'', ''filled''],
          sizes = [''sm'', ''md'', ''lg''],
          defaultText = ''Enter text...'',
          props_t = [''disabled'', ''error'']\<rparr>),
      (''badge'',
         \<lparr>variants = [''default'', ''secondary'', ''destructive'', ''outline''],
          sizes = [''sm'', ''md'', ''lg''],
          defaultText = ''Badge'',
          props_t = [''rounded'']\<rparr>),
      (''alert'',
         \<lparr>variants = [''default'', ''destructive'', ''warning'', ''success''],
          sizes = [''md''],
          defaultText = ''This is an alert message'',
          props_t = [''dismissible'']\<rparr>)]"

definition initialComponent :: ComponentConfig where
  "initialComponent =
     \<lparr>type_c = ''button'', variant = ''primary'', size_c = ''md'', text_c = ''Click me'',
      props = obj_literal []\<rparr>"

subsection \<open>State updates\<close>

text \<open>
  \<open>updateComponent\<close> and \<open>updateProp\<close> pass React an updater function of the previous
  state; the model is that updater. A spread copies the own properties in their order,
  so the copy of an object is the same property list.
\<close>

datatype field_value =
  Type string | Variant string | Size string | Text string | Props "bool obj"

fun updateComponent :: "field_value \<Rightarrow> ComponentConfig \<Rightarrow> ComponentConfig" where
  "updateComponent (Type v) prev = prev\<lparr>type_c := v\<rparr>"
| "updateComponent (Variant v) prev = prev\<lparr>variant := v\<rparr>"
| "updateComponent (Size v) prev = prev\<lparr>size_c := v\<rparr>"
| "updateComponent (Text v) prev = prev\<lparr>text_c := v\<rparr>"
| "updateComponent (Props v) prev = prev\<lparr>props := v\<rparr>"

definition updateProp :: "string \<Rightarrow> bool \<Rightarrow> ComponentConfig \<Rightarrow> ComponentConfig" where
  "updateProp propName val prev = prev\<lparr>props := obj_put (props prev) propName val\<rparr>"

text \<open>
  The \<^verbatim>\<open>onChange\<close> handler of the type selector. Reading \<^verbatim>\<open>template.variants\<close>
  of a type that has no registry entry throws a \<^verbatim>\<open>TypeError\<close>. The first element of
  an empty list would be \<^verbatim>\<open>undefined\<close>, which the string fields of the record cannot
  hold: the model reports it as \<open>UndefinedField\<close>. The five queued updaters run in the
  order of the calls.
\<close>

datatype error = TypeError | UndefinedField

definition onTypeChange :: "string \<Rightarrow> ComponentConfig \<Rightarrow> error + ComponentConfig" where
  "onTypeChange ty prev =
     (case map_of componentTemplates ty of
        None \<Rightarrow> Inl TypeError
      | Some template \<Rightarrow>
          (case (variants template, sizes template) of
             (variant0 # _, size0 # _) \<Rightarrow>
               Inr (updateComponent (Props (obj_literal []))
                     (updateComponent (Text (defaultText template))
                       (updateComponent (Size size0)
                         (updateComponent (Variant variant0)
                           (updateComponent (Type ty) prev)))))
           | _ \<Rightarrow> Inl UndefinedField))"

subsection \<open>Component formatter\<close>

abbreviation nl :: string where
  "nl \<equiv> [CHR 0x0A]"

text \<open>\<^verbatim>\<open>Array.prototype.join\<close> on strings.\<close>

fun join :: "string \<Rightarrow> string list \<Rightarrow> string" where
  "join sep [] = []"
| "join sep [x] = x"
| "join sep (x # y # ys) = x @ sep @ join sep (y # ys)"

definition generateComponentCode :: \<open>ComponentConfig \<Rightarrow> string\<close> where
  \<open>generateComponentCode component =
     (let propsText = join '' '' (map fst (filter snd (props component))) in
      if type_c component = ''button'' then
        ''<Button variant="'' @ variant component @ ''" size="'' @ size_c component @ ''" '' @
          propsText @ ''>'' @ nl @
        ''  '' @ text_c component @ nl @
        ''</Button>''
      else if type_c component = ''card'' then
        ''<Card className="'' @ (if size_c component = ''lg'' then ''p-6'' else ''p-4'') @ ''" '' @
          propsText @ ''>'' @ nl @
        ''  <CardHeader>'' @ nl @
        ''    <CardTitle>'' @ text_c component @ ''</CardTitle>'' @ nl @
        ''  </CardHeader>'' @ nl @
        ''  <CardContent>'' @ nl @
        ''    Card content goes here...'' @ nl @
        ''  </CardContent>'' @ nl @
        ''</Card>''
      else if type_c component = ''input'' then
        ''<Input '' @ nl @
        ''  placeholder="'' @ text_c component @ ''"'' @ nl @
        ''  size="'' @ size_c component @ ''"'' @ nl @
        ''  '' @ propsText @ nl @
        ''/>''
      else if type_c component = ''badge'' then
        ''<Badge variant="'' @ variant component @ ''" '' @ propsText @ ''>'' @ nl @
        ''  '' @ text_c component @ nl @
        ''</Badge>''
      else if type_c component = ''alert'' then
        ''<Alert variant="'' @ variant component @ ''" '' @ propsText @ ''>'' @ nl @
        ''  <AlertDescription>'' @ nl @
        ''    '' @ text_c component @ nl @
        ''  </AlertDescription>'' @ nl @
        ''</Alert>''
      else [])\<close>

text \<open>Whether a text occurs in another one, as a test of the generated code would check.\<close>

fun starts_with :: "string \<Rightarrow> string \<Rightarrow> bool" where
  "starts_with [] ys = True"
| "starts_with (x # xs) [] = False"
| "starts_with (x # xs) (y # ys) = (x = y \<and> starts_with xs ys)"

fun contains :: "string \<Rightarrow> string \<Rightarrow> bool" where
  "contains xs [] = (xs = [])"
| "contains xs (y # ys) = (starts_with xs (y # ys) \<or> contains xs ys)"

subsection \<open>Preview\<close>

text \<open>
  The element tree that \<open>renderPreview\<close> returns; \<open>None\<close> is \<^verbatim>\<open>null\<close>. \<open>Hole\<close> is a
  child that is \<^verbatim>\<open>false\<close> or \<^verbatim>\<open>undefined\<close> and renders nothing. A style table is read
  with the variant or size as key; a key the table does not have reads \<^verbatim>\<open>undefined\<close>,
  which the template literal of \<^verbatim>\<open>className\<close> renders as the text \<open>undefined\<close> (the
  member names of \<^verbatim>\<open>Object.prototype\<close> are not modelled as keys).
\<close>

datatype attr_value = AString string | ABool bool | AUndefined

datatype jsx = Element string "(string \<times> attr_value) list" "jsx list" | TextNode string | Hole

definition style_of :: "string obj \<Rightarrow> string \<Rightarrow> string" where
  "style_of table k = (case map_of table k of Some v \<Rightarrow> v | None \<Rightarrow> ''undefined'')"

definition truthy :: "bool obj \<Rightarrow> string \<Rightarrow> bool" where
  "truthy ps k = (map_of ps k = Some True)"

definition prop_attr :: "bool obj \<Rightarrow> string \<Rightarrow> attr_value" where
  "prop_attr ps k = (case map_of ps k of Some b \<Rightarrow> ABool b | None \<Rightarrow> AUndefined)"

definition renderPreview :: "ComponentConfig \<Rightarrow> jsx option" where
  "renderPreview component =
     (let baseClasses = ''rounded-lg transition-all'' in
      if type_c component = ''button'' then
        (let buttonVariants = obj_literal
               [(''primary'', ''bg-primary text-primary-foreground hover:bg-primary/90''),
                (''secondary'', ''bg-secondary text-secondary-foreground hover:bg-secondary/90''),
                (''outline'', ''border border-border bg-background hover:bg-accent''),
                (''destructive'',
                   ''bg-destructive text-destructive-foreground hover:bg-destructive/90'')];
             buttonSizes = obj_literal
               [(''sm'', ''px-3 py-1.5 text-sm''), (''md'', ''px-4 py-2''),
                (''lg'', ''px-6 py-3 text-lg'')]
         in Some (Element ''button''
              [(''className'', AString (baseClasses @ '' '' @
                  style_of buttonVariants (variant component) @ '' '' @
                  style_of buttonSizes (size_c component) @ '' '' @
                  (if truthy (props component) ''disabled''
                   then ''opacity-50 cursor-not-allowed'' else []))),
               (''disabled'', prop_attr (props component) ''disabled'')]
              [TextNode (if truthy (props component) ''loading''
                         then ''Loading...'' else text_c component)]))
      else if type_c component = ''card'' then
        (let cardSizes = obj_literal [(''sm'', ''p-3''), (''md'', ''p-4''), (''lg'', ''p-6'')]
         in Some (Element ''div''
              [(''className'', AString (baseClasses @ '' border border-border bg-card '' @
                  style_of cardSizes (size_c component) @ '' '' @
                  (if truthy (props component) ''hover'' then ''hover:shadow-md'' else []) @
                  '' '' @
                  (if truthy (props component) ''shadow'' then ''shadow-sm'' else [])))]
              [Element ''h4'' [(''className'', AString ''mb-2 text-card-foreground'')]
                 [TextNode (text_c component)],
               Element ''p'' [(''className'', AString ''text-sm text-muted-foreground'')]
                 [TextNode ''This is a sample card component with customizable content.'']]))
      else if type_c component = ''input'' then
        (let inputSizes = obj_literal
               [(''sm'', ''px-2 py-1 text-sm''), (''md'', ''px-3 py-2''),
                (''lg'', ''px-4 py-3 text-lg'')]
         in Some (Element ''input''
              [(''className'', AString (baseClasses @ '' border border-border bg-background '' @
                  style_of inputSizes (size_c component) @ '' '' @
                  (if truthy (props component) ''error'' then ''border-destructive'' else []) @
                  '' '' @
                  (if truthy (props component) ''disabled''
                   then ''opacity-50 cursor-not-allowed'' else []))),
               (''placeholder'', AString (text_c component)),
               (''disabled'', prop_attr (props component) ''disabled'')]
              []))
      else if type_c component = ''badge'' then
        (let badgeVariants = obj_literal
               [(''default'', ''bg-primary text-primary-foreground''),
                (''secondary'', ''bg-secondary text-secondary-foreground''),
                (''destructive'', ''bg-destructive text-destructive-foreground''),
                (''outline'', ''border border-border text-foreground'')];
             badgeSizes = obj_literal
               [(''sm'', ''px-2 py-0.5 text-xs''), (''md'', ''px-2.5 py-0.5 text-sm''),
                (''lg'', ''px-3 py-1'')]
         in Some (Element ''span''
              [(''className'', AString (''inline-flex items-center '' @ baseClasses @ '' '' @
                  style_of badgeVariants (variant component) @ '' '' @
                  style_of badgeSizes (size_c component) @ '' '' @
                  (if truthy (props component) ''rounded'' then ''rounded-full'' else [])))]
              [TextNode (text_c component)]))
      else if type_c component = ''alert'' then
        (let alertVariants = obj_literal
               [(''default'', ''bg-accent text-accent-foreground border-border''),
                (''destructive'', ''bg-destructive/10 text-destructive border-destructive/20''),
                (''warning'', ''bg-yellow-50 text-yellow-800 border-yellow-200''),
                (''success'', ''bg-green-50 text-green-800 border-green-200'')]
         in Some (Element ''div''
              [(''className'', AString (baseClasses @ '' border p-4 '' @
                  style_of alertVariants (variant component)))]
              [Element ''p'' [] [TextNode (text_c component)],
               if truthy (props component) ''dismissible''
               then Element ''button'' [(''className'', AString ''ml-2 text-sm underline'')]
                      [TextNode ''Dismiss'']
               else Hole]))
      else None)"

section \<open>Design system model and exporters (DesignSystemGenerator.tsx, ExportModal)\<close>

subsection \<open>Data model\<close>

record TypographyEntry =
  size_e :: string
  lineHeight :: string
  weight :: string

type_synonym TypographyScale = "TypographyEntry obj"

record DesignSystem =
  name :: string
  colors :: ColorPalette
  typography :: TypographyScale
  spacing :: "string list"
  borderRadius :: "string list"
  fontFamily :: string

definition defaultTypography :: TypographyScale where
  "defaultTypography = obj_literal
     [(''xs'', \<lparr>size_e = ''0.75rem'', lineHeight = ''1rem'', weight = ''400''\<rparr>),
      (''sm'', \<lparr>size_e = ''0.875rem'', lineHeight = ''1.25rem'', weight = ''400''\<rparr>),
      (''base'', \<lparr>size_e = ''1rem'', lineHeight = ''1.5rem'', weight = ''400''\<rparr>),
      (''lg'', \<lparr>size_e = ''1.125rem'', lineHeight = ''1.75rem'', weight = ''400''\<rparr>),
      (''xl'', \<lparr>size_e = ''1.25rem'', lineHeight = ''1.75rem'', weight = ''500''\<rparr>),
      (''2xl'', \<lparr>size_e = ''1.5rem'', lineHeight = ''2rem'', weight = ''500''\<rparr>),
      (''3xl'', \<lparr>size_e = ''1.875rem'', lineHeight = ''2.25rem'', weight = ''600''\<rparr>),
      (''4xl'', \<lparr>size_e = ''2.25rem'', lineHeight = ''2.5rem'', weight = ''600''\<rparr>),
      (''5xl'', \<lparr>size_e = ''3rem'', lineHeight = ''1'', weight = ''700''\<rparr>)]"

definition fontFamilies :: "string list" where
  "fontFamilies =
     [''Inter, sans-serif'', ''Roboto, sans-serif'', ''Open Sans, sans-serif'',
      ''Lato, sans-serif'', ''Poppins, sans-serif'', ''Montserrat, sans-serif'',
      ''Source Sans Pro, sans-serif'', ''Nunito, sans-serif'', ''Playfair Display, serif'',
      ''Merriweather, serif'']"

text \<open>
  The interfaces \<^verbatim>\<open>ColorPalette\<close>, \<^verbatim>\<open>ColorShade\<close> and \<^verbatim>\<open>TypographyScale\<close> fix the
  keys of a design system; every object the program builds has them in this order.
\<close>

definition role_names :: "string list" where
  "role_names =
     [''primary'', ''secondary'', ''accent'', ''neutral'', ''success'', ''warning'', ''error'']"

definition step_keys :: "string list" where
  "step_keys =
     [''50'', ''100'', ''200'', ''300'', ''400'', ''500'', ''600'', ''700'', ''800'', ''900'']"

definition size_keys :: "string list" where
  "size_keys = [''xs'', ''sm'', ''base'', ''lg'', ''xl'', ''2xl'', ''3xl'', ''4xl'', ''5xl'']"

definition wf_DesignSystem :: "DesignSystem \<Rightarrow> bool" where
  "wf_DesignSystem ds =
     (map fst (colors ds) = role_names \<and>
      list_all (\<lambda>shades. map fst shades = step_keys) (map snd (colors ds)) \<and>
      map fst (typography ds) = size_keys)"

text \<open>
  The state of \<open>DesignSystemGenerator\<close> at start-up and after \<open>generateRandomSystem\<close>;
  the parameters are the draws of \<^verbatim>\<open>Math.random()\<close>, in the order of the calls. A
  draw in \<open>[0,1)\<close> picks an index inside the font list.
\<close>

definition initialDesignSystem :: "real \<Rightarrow> DesignSystem" where
  "initialDesignSystem random =
     \<lparr>name = ''My Design System'',
      colors = generateRandomPalette random,
      typography = defaultTypography,
      spacing = [''4px'', ''8px'', ''12px'', ''16px'', ''20px'', ''24px'', ''32px'', ''40px'',
                 ''48px'', ''64px''],
      borderRadius = [''0px'', ''4px'', ''8px'', ''12px'', ''16px'', ''24px''],
      fontFamily = fontFamilies ! 0\<rparr>"

definition generateRandomSystem :: "real \<Rightarrow> real \<Rightarrow> real \<Rightarrow> DesignSystem" where
  "generateRandomSystem random1 random2 random3 =
     (let randomName = ''Design System '' @ num \<lfloor>random1 * 1000\<rfloor>;
          randomFont = fontFamilies ! nat \<lfloor>random2 * real (length fontFamilies)\<rfloor>
      in \<lparr>name = randomName,
          colors = generateRandomPalette random3,
          typography = defaultTypography,
          spacing = [''4px'', ''8px'', ''12px'', ''16px'', ''20px'', ''24px'', ''32px'', ''40px'',
                     ''48px'', ''64px''],
          borderRadius = [''0px'', ''4px'', ''8px'', ''12px'', ''16px'', ''24px''],
          fontFamily = randomFont\<rparr>)"

subsection \<open>JSON.stringify(value, null, 2)\<close>

text \<open>
  The values the exporters serialise are strings, arrays and objects. \<open>quote\<close> is
  \<^verbatim>\<open>QuoteJSONString\<close> on the bytes of the text: the double quote, the backslash
  and the control characters are escaped, everything else is copied. \<open>stringify\<close>
  carries the current indentation; the gap is two spaces.
\<close>

datatype json = JString string | JArray "json list" | JObject "(string \<times> json) list"

definition hex_char :: "nat \<Rightarrow> char" where
  "hex_char d = ''0123456789abcdef'' ! d"

definition escape_char :: "char \<Rightarrow> string" where
  "escape_char c =
     (if c = CHR 0x22 then [CHR 0x5C, CHR 0x22]
      else if c = CHR 0x5C then [CHR 0x5C, CHR 0x5C]
      else if c = CHR 0x08 then [CHR 0x5C, CHR ''b'']
      else if c = CHR 0x0C then [CHR 0x5C, CHR ''f'']
      else if c = CHR 0x0A then [CHR 0x5C, CHR ''n'']
      else if c = CHR 0x0D then [CHR 0x5C, CHR ''r'']
      else if c = CHR 0x09 then [CHR 0x5C, CHR ''t'']
      else if (of_char c :: nat) < 32
        then [CHR 0x5C, CHR ''u'', CHR ''0'', CHR ''0'',
              hex_char (of_char c div 16), hex_char (of_char c mod 16)]
      else [c])"

definition quote :: "string \<Rightarrow> string" where
  "quote s = [CHR 0x22] @ concat (map escape_char s) @ [CHR 0x22]"

fun stringify :: "string \<Rightarrow> json \<Rightarrow> string" where
  "stringify indent (JString s) = quote s"
| "stringify indent (JArray xs) =
     (if xs = [] then ''[]''
      else ''['' @ nl @ (indent @ ''  '') @
           join ('','' @ nl @ (indent @ ''  '')) (map (stringify (indent @ ''  '')) xs) @
           nl @ indent @ '']'')"
| "stringify indent (JObject kvs) =
     (if kvs = [] then ''{}''
      else ''{'' @ nl @ (indent @ ''  '') @
           join ('','' @ nl @ (indent @ ''  ''))
             (map (\<lambda>(k, v). quote k @ '': '' @ stringify (indent @ ''  '') v) kvs) @
           nl @ indent @ ''}'')"

definition JSON_stringify :: "json \<Rightarrow> string" where
  "JSON_stringify v = stringify [] v"

text \<open>An object whose values are strings, and a typography scale, as JSON values.\<close>

definition json_of_strings :: "string obj \<Rightarrow> json" where
  "json_of_strings ob = JObject (map (\<lambda>(k, v). (k, JString v)) ob)"

definition json_of_entry :: "TypographyEntry \<Rightarrow> json" where
  "json_of_entry e =
     JObject [(''size'', JString (size_e e)), (''lineHeight'', JString (lineHeight e)),
              (''weight'', JString (weight e))]"

definition json_of_typography :: "TypographyScale \<Rightarrow> json" where
  "json_of_typography ob = JObject (map (\<lambda>(k, e). (k, json_of_entry e)) ob)"

text \<open>
  \<^verbatim>\<open>colors[colorName][shade] = value\<close>: the assignment to a property of the object
  bound to \<open>colorName\<close>, which the line before has created.
\<close>

definition obj_put_in :: "json obj \<Rightarrow> string \<Rightarrow> string \<Rightarrow> json \<Rightarrow> json obj" where
  "obj_put_in ob k1 k2 v =
     map (\<lambda>(k, sub). if k = k1
            then (k, case sub of JObject m \<Rightarrow> JObject (obj_put m k2 v) | _ \<Rightarrow> sub)
            else (k, sub)) ob"

subsection \<open>Exporters\<close>

text \<open>
  Each \<^verbatim>\<open>forEach\<close> is a left fold that threads the variable the loop body assigns
  (\<open>css\<close>, \<open>scss\<close>, \<open>variables\<close>, \<open>colors\<close>, ...); \<open>enumerate 0\<close> pairs every element
  with its index. \<open>figmaVariables\<close>, \<open>tailwindConfig\<close> and \<open>tokensStudio\<close> are the objects
  the exporters hand to \<^verbatim>\<open>JSON.stringify\<close>.
\<close>

definition figmaVariables :: "DesignSystem \<Rightarrow> string obj" where
  "figmaVariables designSystem =
     (let variables = obj_literal [];
          variables =
            foldl (\<lambda>variables (colorName, shades).
                foldl (\<lambda>variables (shade, val).
                    obj_put variables (''color/'' @ colorName @ ''/'' @ shade) val)
                  variables shades)
              variables (colors designSystem);
          variables =
            foldl (\<lambda>variables (size, props).
                obj_put
                  (obj_put
                    (obj_put variables (''typography/'' @ size @ ''/size'') (size_e props))
                    (''typography/'' @ size @ ''/lineHeight'') (lineHeight props))
                  (''typography/'' @ size @ ''/weight'') (weight props))
              variables (typography designSystem);
          variables =
            foldl (\<lambda>variables (index, space).
                obj_put variables (''spacing/'' @ num (int index + 1)) space)
              variables (enumerate 0 (spacing designSystem));
          variables =
            foldl (\<lambda>variables (index, radius).
                obj_put variables (''radius/'' @ num (int index)) radius)
              variables (enumerate 0 (borderRadius designSystem));
          variables = obj_put variables ''font/family'' (fontFamily designSystem)
      in variables)"

definition generateFigmaVariables :: "DesignSystem \<Rightarrow> string" where
  "generateFigmaVariables designSystem =
     JSON_stringify (json_of_strings (figmaVariables designSystem))"

definition generateCSS :: "DesignSystem \<Rightarrow> string" where
  "generateCSS designSystem =
     (let css = '':root {'' @ nl;
          css =
            foldl (\<lambda>css (colorName, shades).
                foldl (\<lambda>css (shade, val).
                    css @ ''  --'' @ colorName @ ''-'' @ shade @ '': '' @ val @ '';'' @ nl)
                  css shades)
              css (colors designSystem);
          css =
            foldl (\<lambda>css (size, props).
                ((css @ ''  --text-'' @ size @ '': '' @ size_e props @ '';'' @ nl)
                  @ ''  --leading-'' @ size @ '': '' @ lineHeight props @ '';'' @ nl)
                  @ ''  --weight-'' @ size @ '': '' @ weight props @ '';'' @ nl)
              css (typography designSystem);
          css =
            foldl (\<lambda>css (index, space).
                css @ ''  --spacing-'' @ num (int index + 1) @ '': '' @ space @ '';'' @ nl)
              css (enumerate 0 (spacing designSystem));
          css =
            foldl (\<lambda>css (index, radius).
                css @ ''  --radius-'' @ num (int index) @ '': '' @ radius @ '';'' @ nl)
              css (enumerate 0 (borderRadius designSystem));
          css = css @ ''  --font-family: '' @ fontFamily designSystem @ '';'' @ nl;
          css = css @ ''}'' @ nl
      in css)"

definition tailwindConfig :: "DesignSystem \<Rightarrow> json" where
  "tailwindConfig designSystem =
     (let colors_acc = obj_literal [];
          colors_acc =
            foldl (\<lambda>colors_acc (colorName, shades).
                foldl (\<lambda>colors_acc (shade, val).
                    obj_put_in colors_acc colorName shade (JString val))
                  (obj_put colors_acc colorName (JObject (obj_literal []))) shades)
              colors_acc (colors designSystem)
      in JObject (obj_literal
          [(''theme'', JObject (obj_literal
             [(''extend'', JObject (obj_literal
                [(''colors'', JObject colors_acc),
                 (''fontFamily'', JObject (obj_literal
                    [(''sans'', JArray [JString (fontFamily designSystem)])])),
                 (''fontSize'', json_of_typography (typography designSystem)),
                 (''spacing'', JObject
                    (foldl (\<lambda>acc (index, space).
                        obj_put acc (num (int index + 1)) (JString space))
                      (obj_literal []) (enumerate 0 (spacing designSystem)))),
                 (''borderRadius'', JObject
                    (foldl (\<lambda>acc (index, radius).
                        obj_put acc (num (int index)) (JString radius))
                      (obj_literal []) (enumerate 0 (borderRadius designSystem))))]))]))]))"

definition generateTailwindConfig :: "DesignSystem \<Rightarrow> string" where
  "generateTailwindConfig designSystem = JSON_stringify (tailwindConfig designSystem)"

definition generateSCSSVariables :: "DesignSystem \<Rightarrow> string" where
  "generateSCSSVariables designSystem =
     (let scss = ''// '' @ name designSystem @ '' - Design System Variables'' @ nl @ nl;
          scss = scss @ ''// Colors'' @ nl;
          scss =
            foldl (\<lambda>scss (colorName, shades).
                foldl (\<lambda>scss (shade, val).
                    scss @ ''$'' @ colorName @ ''-'' @ shade @ '': '' @ val @ '';'' @ nl)
                  scss shades)
              scss (colors designSystem);
          scss = scss @ nl @ ''// Typography'' @ nl;
          scss = scss @ ''$font-family-base: '' @ fontFamily designSystem @ '';'' @ nl;
          scss =
            foldl (\<lambda>scss (size, props).
                ((scss @ ''$font-size-'' @ size @ '': '' @ size_e props @ '';'' @ nl)
                  @ ''$line-height-'' @ size @ '': '' @ lineHeight props @ '';'' @ nl)
                  @ ''$font-weight-'' @ size @ '': '' @ weight props @ '';'' @ nl)
              scss (typography designSystem);
          scss = scss @ nl @ ''// Spacing'' @ nl;
          scss =
            foldl (\<lambda>scss (index, space).
                scss @ ''$spacing-'' @ num (int index + 1) @ '': '' @ space @ '';'' @ nl)
              scss (enumerate 0 (spacing designSystem));
          scss = scss @ nl @ ''// Border Radius'' @ nl;
          scss =
            foldl (\<lambda>scss (index, radius).
                scss @ ''$border-radius-'' @ num (int index) @ '': '' @ radius @ '';'' @ nl)
              scss (enumerate 0 (borderRadius designSystem))
      in scss)"

definition tokensStudio :: "DesignSystem \<Rightarrow> json" where
  "tokensStudio designSystem =
     (let colors_acc =
            foldl (\<lambda>colors_acc (colorName, shades).
                foldl (\<lambda>colors_acc (shade, val).
                    obj_put_in colors_acc colorName shade
                      (JObject (obj_literal
                         [(''value'', JString val), (''type'', JString ''color'')])))
                  (obj_put colors_acc colorName (JObject (obj_literal []))) shades)
              (obj_literal []) (colors designSystem);
          typography_acc =
            foldl (\<lambda>typography_acc (size, props).
                obj_put typography_acc size
                  (JObject (obj_literal
                     [(''value'', JObject (obj_literal
                         [(''fontSize'', JString (size_e props)),
                          (''lineHeight'', JString (lineHeight props)),
                          (''fontWeight'', JString (weight props)),
                          (''fontFamily'', JString (fontFamily designSystem))])),
                      (''type'', JString ''typography'')])))
              (obj_literal []) (typography designSystem);
          spacing_acc =
            foldl (\<lambda>spacing_acc (index, space).
                obj_put spacing_acc (num (int index + 1))
                  (JObject (obj_literal
                     [(''value'', JString space), (''type'', JString ''spacing'')])))
              (obj_literal []) (enumerate 0 (spacing designSystem));
          borderRadius_acc =
            foldl (\<lambda>borderRadius_acc (index, radius).
                obj_put borderRadius_acc (num (int index))
                  (JObject (obj_literal
                     [(''value'', JString radius), (''type'', JString ''borderRadius'')])))
              (obj_literal []) (enumerate 0 (borderRadius designSystem))
      in JObject (obj_literal
          [(''global'', JObject (obj_literal
             [(''colors'', JObject colors_acc),
              (''typography'', JObject typography_acc),
              (''spacing'', JObject spacing_acc),
              (''borderRadius'', JObject borderRadius_acc)]))]))"

definition generateTokensStudio :: "DesignSystem \<Rightarrow> string" where
  "generateTokensStudio designSystem = JSON_stringify (tokensStudio designSystem)"

text \<open>
  The specification's reading of the stylesheet export: a declaration \<^verbatim>\<open>--name: value;\<close>
  on a line of its own, indented by two spaces, and a single \<^verbatim>\<open>:root\<close> block of
  declarations. These two follow the specification, to be compared with \<open>generateCSS\<close>.
\<close>

definition css_decl :: "string \<Rightarrow> string \<Rightarrow> string" where
  "css_decl property val = ''  --'' @ property @ '': '' @ val @ '';'' @ nl"

definition css_root_block :: "(string \<times> string) list \<Rightarrow> string" where
  "css_root_block decls =
     '':root {'' @ nl @ concat (map (\<lambda>(property, val). css_decl property val) decls) @ ''}'' @ nl"

subsection \<open>The page: actions on the design system and its exports\<close>

text \<open>
  The \<open>formats\<close> table of \<open>ExportModal\<close> binds each of the five formats to its content,
  computed from the \<open>designSystem\<close> state of the page. The page changes that state by
  \<open>generateRandomSystem\<close>, by the shuffle button of one role, by \<open>Shuffle All\<close>, and by
  the name and font inputs. \<^verbatim>\<open>Math.random\<close> is a sequence \<open>rnd\<close> of numbers together with
  the count of calls made so far: the call number \<open>n\<close> returns \<open>rnd n\<close>.
\<close>

datatype format = Figma | CSS | Tailwind | SCSS | Tokens

fun exportContent :: "format \<Rightarrow> DesignSystem \<Rightarrow> string" where
  "exportContent Figma designSystem = generateFigmaVariables designSystem"
| "exportContent CSS designSystem = generateCSS designSystem"
| "exportContent Tailwind designSystem = generateTailwindConfig designSystem"
| "exportContent SCSS designSystem = generateSCSSVariables designSystem"
| "exportContent Tokens designSystem = generateTokensStudio designSystem"

record page =
  designSystem :: DesignSystem
  randomCalls :: nat

datatype action =
  GenerateRandom | ShuffleRole string | ShuffleAll | EditName string | SelectFont string
  | Export format

fun step :: "(nat \<Rightarrow> real) \<Rightarrow> action \<Rightarrow> page \<Rightarrow> string option \<times> page" where
  "step rnd GenerateRandom s =
     (None,
      \<lparr>designSystem =
         generateRandomSystem (rnd (randomCalls s)) (rnd (randomCalls s + 1))
           (rnd (randomCalls s + 2)),
       randomCalls = randomCalls s + 3\<rparr>)"
| "step rnd (ShuffleRole colorName) s =
     (let baseHue = \<lfloor>rnd (randomCalls s) * 360\<rfloor>;
          newShades = generateColorShade baseHue 70
      in (None,
          \<lparr>designSystem = (designSystem s)
             \<lparr>colors := obj_put (colors (designSystem s)) colorName newShades\<rparr>,
           randomCalls = randomCalls s + 1\<rparr>))"
| "step rnd ShuffleAll s =
     (None,
      \<lparr>designSystem = (designSystem s)\<lparr>colors := generateRandomPalette (rnd (randomCalls s))\<rparr>,
       randomCalls = randomCalls s + 1\<rparr>)"
| "step rnd (EditName v) s = (None, s\<lparr>designSystem := (designSystem s)\<lparr>name := v\<rparr>\<rparr>)"
| "step rnd (SelectFont v) s =
     (None, s\<lparr>designSystem := (designSystem s)\<lparr>fontFamily := v\<rparr>\<rparr>)"
| "step rnd (Export fmt) s = (Some (exportContent fmt (designSystem s)), s)"

section \<open>Properties\<close>


subsection \<open>Decimal numerals\<close>

lemma digit_char_cases:
  assumes "d < 10"
  shows "is_digit (digit_char d)" and "digit_val (digit_char d) = d"
    and "(digit_char d = CHR ''0'') = (d = 0)"
proof -
  from assms have d: "d = 0 \<or> d = 1 \<or> d = 2 \<or> d = 3 \<or> d = 4 \<or> d = 5 \<or> d = 6 \<or> d = 7 \<or>
      d = 8 \<or> d = 9"
    by arith
  from d show "is_digit (digit_char d)"
    by (elim disjE) (simp_all add: digit_char_def is_digit_def)
  from d show "digit_val (digit_char d) = d"
    by (elim disjE) (simp_all add: digit_char_def digit_val_def)
  from d show "(digit_char d = CHR ''0'') = (d = 0)"
    by (elim disjE) (simp_all add: digit_char_def)
qed

lemma show_nat_nonempty: "show_nat n \<noteq> []"
  by (subst show_nat.simps) simp

lemma show_nat_digits: "list_all is_digit (show_nat n)"
proof (induction n rule: show_nat.induct)
  case (1 n)
  show ?case
  proof (cases "n < 10")
    case True
    then show ?thesis
      by (subst show_nat.simps) (simp add: digit_char_cases(1))
  next
    case False
    have "n mod 10 < 10" by simp
    with False 1 show ?thesis
      by (subst show_nat.simps) (simp add: digit_char_cases(1))
  qed
qed

lemma parse_nat_snoc: "parse_nat (s @ [c]) = 10 * parse_nat s + digit_val c"
  by (simp add: parse_nat_def)

lemma parse_nat_show_nat: "parse_nat (show_nat n) = n"
proof (induction n rule: show_nat.induct)
  case (1 n)
  show ?case
  proof (cases "n < 10")
    case True
    then show ?thesis
      by (subst show_nat.simps) (simp add: parse_nat_def digit_char_cases(2))
  next
    case False
    have "n mod 10 < 10" by simp
    with False 1 show ?thesis
      by (subst show_nat.simps) (simp add: parse_nat_snoc digit_char_cases(2))
  qed
qed

lemma show_nat_inj: "show_nat m = show_nat n \<Longrightarrow> m = n"
  by (metis parse_nat_show_nat)

lemma show_nat_hd: "hd (show_nat n) = CHR ''0'' \<Longrightarrow> n = 0"
proof (induction n rule: show_nat.induct)
  case (1 n)
  show ?case
  proof (cases "n < 10")
    case True
    with 1(2) show ?thesis
      by (subst (asm) show_nat.simps) (simp add: digit_char_cases(3))
  next
    case False
    with 1(2) have "hd (show_nat (n div 10)) = CHR ''0''"
      by (subst (asm) show_nat.simps) (simp add: show_nat_nonempty)
    with False 1(1) have "n div 10 = 0" by simp
    with False show ?thesis by simp
  qed
qed

lemma show_nat_zero: "show_nat 0 = ''0''"
  by (simp add: show_nat.simps digit_char_def)

lemma is_array_index_show_nat: "is_array_index (show_nat n) = (n < 4294967295)"
proof -
  have "show_nat n = ''0'' \<or> hd (show_nat n) \<noteq> CHR ''0''"
    using show_nat_hd [of n] show_nat_zero by auto
  then show ?thesis
    by (simp add: is_array_index_def show_nat_nonempty show_nat_digits parse_nat_show_nat)
qed

lemma num_index: "num (int i) = show_nat i" "num (int i + 1) = show_nat (i + 1)"
  by (simp_all add: num_def nat_add_distrib)

subsection \<open>Assignments that append\<close>

lemma not_index_if_not_digit: "\<not> is_digit (hd k) \<Longrightarrow> \<not> is_array_index k"
  by (cases k) (auto simp: is_array_index_def)

lemma obj_put_new_name:
  "k \<notin> fst ` set ob \<Longrightarrow> \<not> is_array_index k \<Longrightarrow> obj_put ob k v = ob @ [(k, v)]"
  by (simp add: obj_put_def)

lemma insert_index_last:
  "list_all (\<lambda>e. is_array_index (fst e) \<and> parse_nat (fst e) < parse_nat k) ob \<Longrightarrow>
   insert_index k v ob = ob @ [(k, v)]"
  by (induction ob) auto

lemma obj_put_next_index:
  assumes "map fst ob = map show_nat [a..<b]"
  shows "obj_put ob (show_nat b) v = ob @ [(show_nat b, v)]"
proof -
  have keys: "fst ` set ob = show_nat ` {a..<b}"
    using arg_cong [OF assms, of set] by simp
  then have new: "show_nat b \<notin> fst ` set ob"
    by (auto dest: show_nat_inj)
  show ?thesis
  proof (cases "is_array_index (show_nat b)")
    case True
    then have b: "b < 4294967295" by (simp add: is_array_index_show_nat)
    have "is_array_index (fst e) \<and> parse_nat (fst e) < parse_nat (show_nat b)"
      if "e \<in> set ob" for e
    proof -
      from that have "fst e \<in> show_nat ` {a..<b}" using keys by auto
      then obtain j where "fst e = show_nat j" and "j < b" by auto
      with b show ?thesis by (simp add: is_array_index_show_nat parse_nat_show_nat)
    qed
    then have "list_all (\<lambda>e. is_array_index (fst e) \<and>
        parse_nat (fst e) < parse_nat (show_nat b)) ob"
      by (simp add: list_all_iff)
    then have "insert_index (show_nat b) v ob = ob @ [(show_nat b, v)]"
      by (rule insert_index_last)
    with new True show ?thesis by (simp add: obj_put_def)
  next
    case False
    with new show ?thesis by (simp add: obj_put_def)
  qed
qed

lemma enumerate_snoc: "enumerate n (xs @ [x]) = enumerate n xs @ [(n + length xs, x)]"
  by (simp add: enumerate_append_eq)

lemma fold_index_keys:
  "foldl (\<lambda>acc (index, x). obj_put acc (show_nat (index + c)) (f x)) [] (enumerate 0 xs) =
   map (\<lambda>i. (show_nat (i + c), f (xs ! i))) [0..<length xs]"
proof (induction xs rule: rev_induct)
  case Nil
  show ?case by simp
next
  case (snoc x xs)
  let ?ob = "map (\<lambda>i. (show_nat (i + c), f (xs ! i))) [0..<length xs]"
  have "map fst ?ob = map show_nat (map (\<lambda>i. i + c) [0..<length xs])"
    by (simp add: comp_def)
  also have "map (\<lambda>i. i + c) [0..<length xs] = [c..<length xs + c]"
    by (simp add: map_add_upt add.commute)
  finally have keys: "map fst ?ob = map show_nat [c..<length xs + c]" .
  have old: "map (\<lambda>i. (show_nat (i + c), f ((xs @ [x]) ! i))) [0..<length xs] = ?ob"
    by (simp add: nth_append)
  show ?case
    by (simp add: enumerate_snoc snoc.IH obj_put_next_index [OF keys] old)
qed

subsection \<open>Objects\<close>

lemma map_of_update_in_place:
  "map_of (map (\<lambda>(k', v'). if k' = k then (k', v) else (k', v')) ob) x =
   (if x = k then map_option (\<lambda>_. v) (map_of ob k) else map_of ob x)"
  by (induction ob) (auto split: prod.splits)

lemma map_of_insert_index: "map_of (insert_index k v ob) = (map_of ob)(k \<mapsto> v)"
  if "k \<notin> fst ` set ob"
  using that by (induction ob) (auto simp: fun_eq_iff)

lemma map_of_obj_put: "map_of (obj_put ob k v) = (map_of ob)(k \<mapsto> v)"
proof (cases "k \<in> fst ` set ob")
  case True
  then obtain w where "map_of ob k = Some w"
    by (metis map_of_eq_None_iff not_Some_eq)
  with True show ?thesis
    by (auto simp: obj_put_def map_of_update_in_place fun_eq_iff)
next
  case False
  then have "map_of ob k = None" by (simp add: map_of_eq_None_iff)
  with False show ?thesis
    by (auto simp: obj_put_def map_of_insert_index fun_eq_iff map_add_def split: option.splits)
qed

lemma filter_insert_index:
  "filter (\<lambda>e. fst e \<noteq> k) (insert_index k v ob) = filter (\<lambda>e. fst e \<noteq> k) ob"
  by (induction ob) auto

lemma filter_obj_put:
  "filter (\<lambda>e. fst e \<noteq> k) (obj_put ob k v) = filter (\<lambda>e. fst e \<noteq> k) ob"
proof -
  have "filter (\<lambda>e. fst e \<noteq> k) (map (\<lambda>(k', v'). if k' = k then (k', v) else (k', v')) ob) =
        filter (\<lambda>e. fst e \<noteq> k) ob"
    by (induction ob) (auto split: prod.splits)
  then show ?thesis by (simp add: obj_put_def filter_insert_index)
qed

lemma is_array_index_steps:
  "is_array_index ''50''" "is_array_index ''100''" "is_array_index ''200''"
  "is_array_index ''300''" "is_array_index ''400''" "is_array_index ''500''"
  "is_array_index ''600''" "is_array_index ''700''" "is_array_index ''800''"
  "is_array_index ''900''"
  by (simp_all add: is_array_index_def is_digit_def parse_nat_def digit_val_def)

lemma parse_nat_steps:
  "parse_nat ''50'' = 50" "parse_nat ''100'' = 100" "parse_nat ''200'' = 200"
  "parse_nat ''300'' = 300" "parse_nat ''400'' = 400" "parse_nat ''500'' = 500"
  "parse_nat ''600'' = 600" "parse_nat ''700'' = 700" "parse_nat ''800'' = 800"
  "parse_nat ''900'' = 900"
  by (simp_all add: parse_nat_def digit_val_def)

lemma obj_literal_steps:
  "obj_literal [(''50'', a), (''100'', b), (''200'', c), (''300'', d), (''400'', e),
     (''500'', f), (''600'', g), (''700'', h), (''800'', i), (''900'', j)] =
   [(''50'', a), (''100'', b), (''200'', c), (''300'', d), (''400'', e),
     (''500'', f), (''600'', g), (''700'', h), (''800'', i), (''900'', j)]"
  by (simp add: obj_literal_def obj_put_def is_array_index_steps parse_nat_steps)

lemma not_index_roles:
  "\<not> is_array_index ''primary''" "\<not> is_array_index ''secondary''"
  "\<not> is_array_index ''accent''" "\<not> is_array_index ''neutral''"
  "\<not> is_array_index ''success''" "\<not> is_array_index ''warning''"
  "\<not> is_array_index ''error''"
  by (simp_all add: is_array_index_def is_digit_def)

lemma obj_literal_roles:
  "obj_literal [(''primary'', a), (''secondary'', b), (''accent'', c), (''neutral'', d),
     (''success'', e), (''warning'', f), (''error'', g)] =
   [(''primary'', a), (''secondary'', b), (''accent'', c), (''neutral'', d),
     (''success'', e), (''warning'', f), (''error'', g)]"
  by (simp add: obj_literal_def obj_put_def not_index_roles)

subsection \<open>Palette generator\<close>

lemma num_small:
  "num 95 = ''95''" "num 90 = ''90''" "num 80 = ''80''" "num 70 = ''70''" "num 60 = ''60''"
  "num 50 = ''50''" "num 40 = ''40''" "num 30 = ''30''" "num 20 = ''20''" "num 10 = ''10''"
  by (simp_all add: num_def show_nat.simps digit_char_def)

lemma generateColorShade_entries:
  "generateColorShade h s =
    [(''50'', hsl h (max (s - 40) 10) 95),
     (''100'', hsl h (max (s - 30) 15) 90),
     (''200'', hsl h (max (s - 20) 20) 80),
     (''300'', hsl h (max (s - 10) 25) 70),
     (''400'', hsl h s 60),
     (''500'', hsl h s 50),
     (''600'', hsl h s 40),
     (''700'', hsl h (min (s + 10) 100) 30),
     (''800'', hsl h (min (s + 20) 100) 20),
     (''900'', hsl h (min (s + 30) 100) 10)]"
  unfolding generateColorShade_def obj_literal_steps hsl_def num_small by simp

lemma generateColorShade_keys: "map fst (generateColorShade h s) = step_keys"
  by (simp add: generateColorShade_entries step_keys_def)

lemma digits_then_other:
  assumes "\<not> is_digit c"
  shows "takeWhile is_digit (show_nat n @ c # rest) = show_nat n"
    and "dropWhile is_digit (show_nat n @ c # rest) = c # rest"
proof -
  have all: "\<forall>x\<in>set (show_nat n). is_digit x"
    using show_nat_digits [of n] by (simp add: list_all_iff)
  from all assms show "takeWhile is_digit (show_nat n @ c # rest) = show_nat n"
    by (simp add: takeWhile_append2)
  from all assms show "dropWhile is_digit (show_nat n @ c # rest) = c # rest"
    by (simp add: dropWhile_append2)
qed

lemma read_hsl_hsl:
  assumes "0 \<le> h" and "0 \<le> s" and "0 \<le> l"
  shows "read_hsl (hsl h s l) = Some (h, s, l)"
proof -
  have sep: "\<not> is_digit CHR '',''" "\<not> is_digit CHR ''%''"
    by (simp_all add: is_digit_def)
  have shape: "hsl h s l =
      ''hsl('' @ show_nat (nat h) @ CHR '','' # '' '' @ show_nat (nat s) @ CHR ''%'' # '', '' @
        show_nat (nat l) @ CHR ''%'' # '')''"
    using assms by (simp add: hsl_def num_def)
  show ?thesis
    unfolding shape read_hsl_def Let_def
    using assms
    by (simp add: digits_then_other [OF sep(1)] digits_then_other [OF sep(2)]
        show_nat_nonempty parse_nat_show_nat)
qed

text \<open>
  Claim C1. For every hue \<open>h\<close> in \<open>[0,360)\<close> and saturation \<open>s\<close> in \<open>[0,100]\<close>,
  \<open>generateColorShade h s\<close> has exactly the ten step keys 50, 100, 200, ..., 900 in
  ascending order; the entry of each step is the colour text with hue \<open>h\<close>, lightness
  95, 90, 80, 70, 60, 50, 40, 30, 20, 10 percent in step order, and saturation
  \<open>max (s - 40) 10\<close>, \<open>max (s - 30) 15\<close>, \<open>max (s - 20) 20\<close>, \<open>max (s - 10) 25\<close>,
  \<open>s\<close>, \<open>s\<close>, \<open>s\<close>, \<open>min (s + 10) 100\<close>, \<open>min (s + 20) 100\<close>, \<open>min (s + 30) 100\<close>;
  and these are the three numbers read back from each entry.
\<close>

theorem generateColorShade_steps:
  assumes "0 \<le> h" and "h < 360" and "0 \<le> s" and "s \<le> 100"
  shows "generateColorShade h s =
    [(''50'', hsl h (max (s - 40) 10) 95),
     (''100'', hsl h (max (s - 30) 15) 90),
     (''200'', hsl h (max (s - 20) 20) 80),
     (''300'', hsl h (max (s - 10) 25) 70),
     (''400'', hsl h s 60),
     (''500'', hsl h s 50),
     (''600'', hsl h s 40),
     (''700'', hsl h (min (s + 10) 100) 30),
     (''800'', hsl h (min (s + 20) 100) 20),
     (''900'', hsl h (min (s + 30) 100) 10)] \<and>
   map (\<lambda>(step, colour). (step, read_hsl colour)) (generateColorShade h s) =
    [(''50'', Some (h, max (s - 40) 10, 95)),
     (''100'', Some (h, max (s - 30) 15, 90)),
     (''200'', Some (h, max (s - 20) 20, 80)),
     (''300'', Some (h, max (s - 10) 25, 70)),
     (''400'', Some (h, s, 60)),
     (''500'', Some (h, s, 50)),
     (''600'', Some (h, s, 40)),
     (''700'', Some (h, min (s + 10) 100, 30)),
     (''800'', Some (h, min (s + 20) 100, 20)),
     (''900'', Some (h, min (s + 30) 100, 10))]"
  using assms by (simp add: generateColorShade_entries read_hsl_hsl)

theorem generateColorShade_steps_witness:
  "(0::int) \<le> 210 \<and> (210::int) < 360 \<and> (0::int) \<le> 70 \<and> (70::int) \<le> 100 \<and>
   generateColorShade 210 70 =
    [(''50'', ''hsl(210, 30%, 95%)''), (''100'', ''hsl(210, 40%, 90%)''),
     (''200'', ''hsl(210, 50%, 80%)''), (''300'', ''hsl(210, 60%, 70%)''),
     (''400'', ''hsl(210, 70%, 60%)''), (''500'', ''hsl(210, 70%, 50%)''),
     (''600'', ''hsl(210, 70%, 40%)''), (''700'', ''hsl(210, 80%, 30%)''),
     (''800'', ''hsl(210, 90%, 20%)''), (''900'', ''hsl(210, 100%, 10%)'')] \<and>
   read_hsl ''hsl(210, 30%, 95%)'' = Some (210, 30, 95)"
proof -
  have texts: "hsl 210 30 95 = ''hsl(210, 30%, 95%)''" "hsl 210 40 90 = ''hsl(210, 40%, 90%)''"
    "hsl 210 50 80 = ''hsl(210, 50%, 80%)''" "hsl 210 60 70 = ''hsl(210, 60%, 70%)''"
    "hsl 210 70 60 = ''hsl(210, 70%, 60%)''" "hsl 210 70 50 = ''hsl(210, 70%, 50%)''"
    "hsl 210 70 40 = ''hsl(210, 70%, 40%)''" "hsl 210 80 30 = ''hsl(210, 80%, 30%)''"
    "hsl 210 90 20 = ''hsl(210, 90%, 20%)''" "hsl 210 100 10 = ''hsl(210, 100%, 10%)''"
    by (simp_all add: hsl_def num_def show_nat.simps digit_char_def)
  have range: "(0::int) \<le> 210" "(210::int) < 360" "(0::int) \<le> 70" "(70::int) \<le> 100"
    by simp_all
  note inst = generateColorShade_steps [OF range]
  from inst [THEN conjunct1] have entries: "generateColorShade 210 70 =
      [(''50'', ''hsl(210, 30%, 95%)''), (''100'', ''hsl(210, 40%, 90%)''),
       (''200'', ''hsl(210, 50%, 80%)''), (''300'', ''hsl(210, 60%, 70%)''),
       (''400'', ''hsl(210, 70%, 60%)''), (''500'', ''hsl(210, 70%, 50%)''),
       (''600'', ''hsl(210, 70%, 40%)''), (''700'', ''hsl(210, 80%, 30%)''),
       (''800'', ''hsl(210, 90%, 20%)''), (''900'', ''hsl(210, 100%, 10%)'')]"
    by (simp add: texts)
  from inst [THEN conjunct2] have "read_hsl ''hsl(210, 30%, 95%)'' = Some (210, 30, 95)"
    unfolding entries by simp
  with entries show ?thesis by simp
qed





subsection \<open>Component generator\<close>

lemma starts_with_append: "starts_with xs (xs @ ys)"
  by (induction xs) auto

lemma contains_prefix: "contains xs (xs @ ys)"
  by (cases "xs @ ys") (auto simp: starts_with_append dest: sym [of "xs @ ys"])

lemma contains_append_left: "contains xs ys \<Longrightarrow> contains xs (zs @ ys)"
  by (induction zs) auto

lemma contains_middle: "contains xs (pre @ xs @ post)"
  by (rule contains_append_left) (rule contains_prefix)

text \<open>
  Claim C10. \<open>updateProp p v\<close> leaves type, variant, size and text as they are; in the
  props mapping it binds \<open>p\<close> to \<open>v\<close> and changes no other entry, neither its value nor
  its place among the other entries.
\<close>

theorem updateProp_frame:
  "type_c (updateProp p v c) = type_c c \<and>
   variant (updateProp p v c) = variant c \<and>
   size_c (updateProp p v c) = size_c c \<and>
   text_c (updateProp p v c) = text_c c \<and>
   map_of (props (updateProp p v c)) = (map_of (props c))(p \<mapsto> v) \<and>
   filter (\<lambda>e. fst e \<noteq> p) (props (updateProp p v c)) = filter (\<lambda>e. fst e \<noteq> p) (props c)"
  by (simp add: updateProp_def map_of_obj_put filter_obj_put)

text \<open>
  Claim C9. For a configuration whose type is none of button, card, input, badge and
  alert, \<open>renderPreview\<close> returns \<^verbatim>\<open>null\<close> and raises nothing, as
  \<open>generateComponentCode\<close> returns the empty text.
\<close>

theorem renderPreview_unknown_type:
  assumes "type_c c \<notin> {''button'', ''card'', ''input'', ''badge'', ''alert''}"
  shows "renderPreview c = None \<and> generateComponentCode c = []"
  using assms by (simp add: renderPreview_def generateComponentCode_def Let_def)

theorem renderPreview_unknown_type_witness:
  "''tooltip'' \<notin> {''button'', ''card'', ''input'', ''badge'', ''alert''} \<and>
   renderPreview \<lparr>type_c = ''tooltip'', variant = ''primary'', size_c = ''md'',
     text_c = ''Click me'', props = []\<rparr> = None \<and>
   generateComponentCode \<lparr>type_c = ''tooltip'', variant = ''primary'', size_c = ''md'',
     text_c = ''Click me'', props = []\<rparr> = []"
  using renderPreview_unknown_type [of "\<lparr>type_c = ''tooltip'', variant = ''primary'',
    size_c = ''md'', text_c = ''Click me'', props = []\<rparr>"]
  by simp

lemma componentTemplates_lookup:
  "map_of componentTemplates ''button'' = Some
     \<lparr>variants = [''primary'', ''secondary'', ''outline'', ''destructive''],
      sizes = [''sm'', ''md'', ''lg''], defaultText = ''Click me'',
      props_t = [''disabled'', ''loading'']\<rparr>"
  "map_of componentTemplates ''card'' = Some
     \<lparr>variants = [''default'', ''outlined''],
      sizes = [''sm'', ''md'', ''lg''], defaultText = ''Card Title'',
      props_t = [''shadow'', ''hover'']\<rparr>"
  "map_of componentTemplates ''input'' = Some
     \<lparr>variants = [''default'', ''filled''],
      sizes = [''sm'', ''md'', ''lg''], defaultText = ''Enter text...'',
      props_t = [''disabled'', ''error'']\<rparr>"
  "map_of componentTemplates ''badge'' = Some
     \<lparr>variants = [''default'', ''secondary'', ''destructive'', ''outline''],
      sizes = [''sm'', ''md'', ''lg''], defaultText = ''Badge'',
      props_t = [''rounded'']\<rparr>"
  "map_of componentTemplates ''alert'' = Some
     \<lparr>variants = [''default'', ''destructive'', ''warning'', ''success''],
      sizes = [''md''], defaultText = ''This is an alert message'',
      props_t = [''dismissible'']\<rparr>"
  by (simp_all add: componentTemplates_def obj_literal_def obj_put_def is_array_index_def
      is_digit_def)

lemma updateComponent_all:
  "updateComponent (Props (obj_literal []))
     (updateComponent (Text d)
       (updateComponent (Size s)
         (updateComponent (Variant v) (updateComponent (Type y) c)))) =
   \<lparr>type_c = y, variant = v, size_c = s, text_c = d, props = []\<rparr>"
  by (cases c) (simp add: obj_literal_def)

text \<open>
  Claim C6. Whatever the configuration was (so whatever its old type), selecting one of
  the five types makes it the configuration of that type with the first declared
  variant, the first declared size, the default text of the type's registry entry, and
  no props; the new variant and size are members of that entry's lists.
\<close>

theorem onTypeChange_resets:
  assumes "ty \<in> {''button'', ''card'', ''input'', ''badge'', ''alert''}"
  shows "\<exists>t. map_of componentTemplates ty = Some t \<and>
    onTypeChange ty c =
      Inr \<lparr>type_c = ty, variant = hd (variants t), size_c = hd (sizes t),
           text_c = defaultText t, props = []\<rparr> \<and>
    hd (variants t) \<in> set (variants t) \<and> hd (sizes t) \<in> set (sizes t)"
proof -
  have step: "map_of componentTemplates y = Some t \<Longrightarrow> variants t \<noteq> [] \<Longrightarrow>
      sizes t \<noteq> [] \<Longrightarrow>
      \<exists>t. map_of componentTemplates y = Some t \<and>
        onTypeChange y c =
          Inr \<lparr>type_c = y, variant = hd (variants t), size_c = hd (sizes t),
               text_c = defaultText t, props = []\<rparr> \<and>
        hd (variants t) \<in> set (variants t) \<and> hd (sizes t) \<in> set (sizes t)" for y t
    by (cases "variants t"; cases "sizes t")
      (simp_all add: onTypeChange_def updateComponent_all del: updateComponent.simps)
  from assms have "ty = ''button'' \<or> ty = ''card'' \<or> ty = ''input'' \<or> ty = ''badge'' \<or>
      ty = ''alert''" by simp
  then show ?thesis
  proof (elim disjE)
    assume ty: "ty = ''button''"
    show ?thesis unfolding ty by (rule step [OF componentTemplates_lookup(1)]) simp_all
  next
    assume ty: "ty = ''card''"
    show ?thesis unfolding ty by (rule step [OF componentTemplates_lookup(2)]) simp_all
  next
    assume ty: "ty = ''input''"
    show ?thesis unfolding ty by (rule step [OF componentTemplates_lookup(3)]) simp_all
  next
    assume ty: "ty = ''badge''"
    show ?thesis unfolding ty by (rule step [OF componentTemplates_lookup(4)]) simp_all
  next
    assume ty: "ty = ''alert''"
    show ?thesis unfolding ty by (rule step [OF componentTemplates_lookup(5)]) simp_all
  qed
qed

theorem onTypeChange_resets_witness:
  "''badge'' \<in> {''button'', ''card'', ''input'', ''badge'', ''alert''} \<and>
   onTypeChange ''badge''
     \<lparr>type_c = ''button'', variant = ''outline'', size_c = ''lg'', text_c = ''Save'',
      props = [(''disabled'', True)]\<rparr> =
   Inr \<lparr>type_c = ''badge'', variant = ''default'', size_c = ''sm'', text_c = ''Badge'',
        props = []\<rparr>"
  using onTypeChange_resets [of "''badge''" "\<lparr>type_c = ''button'', variant = ''outline'',
    size_c = ''lg'', text_c = ''Save'', props = [(''disabled'', True)]\<rparr>"]
  by (simp add: componentTemplates_lookup)

text \<open>
  Claim C4, as stated, fails: the claim has variant, size and text interpolated in the
  snippet of every type. The card snippet of variant \<open>outlined\<close> and size \<open>sm\<close> contains
  neither value.
\<close>

theorem generateComponentCode_card_counterexample:
  \<open>generateComponentCode
     \<lparr>type_c = ''card'', variant = ''outlined'', size_c = ''sm'', text_c = ''Card Title'',
      props = []\<rparr> =
     ''<Card className="p-4" >'' @ nl @
     ''  <CardHeader>'' @ nl @
     ''    <CardTitle>Card Title</CardTitle>'' @ nl @
     ''  </CardHeader>'' @ nl @
     ''  <CardContent>'' @ nl @
     ''    Card content goes here...'' @ nl @
     ''  </CardContent>'' @ nl @
     ''</Card>'' \<and>
   \<not> contains ''outlined'' (generateComponentCode
     \<lparr>type_c = ''card'', variant = ''outlined'', size_c = ''sm'', text_c = ''Card Title'',
      props = []\<rparr>) \<and>
   \<not> contains ''sm'' (generateComponentCode
     \<lparr>type_c = ''card'', variant = ''outlined'', size_c = ''sm'', text_c = ''Card Title'',
      props = []\<rparr>)\<close>
  by (simp add: generateComponentCode_def)

text \<open>
  Claim C4, amended. \<open>generateComponentCode\<close> has one fixed template per type, in which
  \<open>attrs\<close> is the space-separated list of the names of the true props: the button
  template interpolates variant, size, text and \<open>attrs\<close>; the card template text and
  \<open>attrs\<close>, with the class \<open>p-6\<close> for size \<open>lg\<close> and \<open>p-4\<close> for every other size, and
  no variant; the input template text, size and \<open>attrs\<close>, and no variant; the badge and
  alert templates variant, text and \<open>attrs\<close>, and no size. For a type outside the five
  the result is the empty text.
\<close>

theorem generateComponentCode_templates:
  \<open>(let attrs = join '' '' (map fst (filter snd p)) in
    generateComponentCode
       \<lparr>type_c = ''button'', variant = v, size_c = s, text_c = t, props = p\<rparr> =
      ''<Button variant="'' @ v @ ''" size="'' @ s @ ''" '' @ attrs @ ''>'' @ nl @
      ''  '' @ t @ nl @
      ''</Button>'' \<and>
    generateComponentCode
       \<lparr>type_c = ''card'', variant = v, size_c = s, text_c = t, props = p\<rparr> =
      ''<Card className="'' @ (if s = ''lg'' then ''p-6'' else ''p-4'') @ ''" '' @ attrs @ ''>'' @ nl @
      ''  <CardHeader>'' @ nl @
      ''    <CardTitle>'' @ t @ ''</CardTitle>'' @ nl @
      ''  </CardHeader>'' @ nl @
      ''  <CardContent>'' @ nl @
      ''    Card content goes here...'' @ nl @
      ''  </CardContent>'' @ nl @
      ''</Card>'' \<and>
    generateComponentCode
       \<lparr>type_c = ''input'', variant = v, size_c = s, text_c = t, props = p\<rparr> =
      ''<Input '' @ nl @
      ''  placeholder="'' @ t @ ''"'' @ nl @
      ''  size="'' @ s @ ''"'' @ nl @
      ''  '' @ attrs @ nl @
      ''/>'' \<and>
    generateComponentCode
       \<lparr>type_c = ''badge'', variant = v, size_c = s, text_c = t, props = p\<rparr> =
      ''<Badge variant="'' @ v @ ''" '' @ attrs @ ''>'' @ nl @
      ''  '' @ t @ nl @
      ''</Badge>'' \<and>
    generateComponentCode
       \<lparr>type_c = ''alert'', variant = v, size_c = s, text_c = t, props = p\<rparr> =
      ''<Alert variant="'' @ v @ ''" '' @ attrs @ ''>'' @ nl @
      ''  <AlertDescription>'' @ nl @
      ''    '' @ t @ nl @
      ''  </AlertDescription>'' @ nl @
      ''</Alert>'' \<and>
    (ty \<notin> {''button'', ''card'', ''input'', ''badge'', ''alert''} \<longrightarrow>
      generateComponentCode
        \<lparr>type_c = ty, variant = v, size_c = s, text_c = t, props = p\<rparr> = []))\<close>
  by (simp add: generateComponentCode_def Let_def)

theorem generateComponentCode_templates_witness:
  \<open>''tooltip'' \<notin> {''button'', ''card'', ''input'', ''badge'', ''alert''} \<and>
   generateComponentCode
     \<lparr>type_c = ''tooltip'', variant = ''primary'', size_c = ''md'', text_c = ''Click me'',
      props = [(''disabled'', True)]\<rparr> = [] \<and>
   generateComponentCode
     \<lparr>type_c = ''input'', variant = ''primary'', size_c = ''md'', text_c = ''Click me'',
      props = [(''disabled'', True)]\<rparr> =
     ''<Input '' @ nl @ ''  placeholder="Click me"'' @ nl @ ''  size="md"'' @ nl @
     ''  disabled'' @ nl @ ''/>''\<close>
  using generateComponentCode_templates [of "[(''disabled'', True)]" "''primary''" "''md''"
    "''Click me''" "''tooltip''"]
  by (simp add: Let_def)

text \<open>
  Claim C5, as stated, fails: the claim has no name of a false prop in the snippet. A
  button whose text is \<open>loading\<close> and whose prop \<open>loading\<close> is false has \<open>loading\<close> in
  its snippet.
\<close>

theorem generateComponentCode_false_prop_counterexample:
  \<open>map_of (props \<lparr>type_c = ''button'', variant = ''primary'', size_c = ''md'',
      text_c = ''loading'', props = [(''loading'', False)]\<rparr>) ''loading'' = Some False \<and>
   generateComponentCode \<lparr>type_c = ''button'', variant = ''primary'', size_c = ''md'',
      text_c = ''loading'', props = [(''loading'', False)]\<rparr> =
     ''<Button variant="primary" size="md" >'' @ nl @ ''  loading'' @ nl @ ''</Button>'' \<and>
   contains ''loading'' (generateComponentCode \<lparr>type_c = ''button'', variant = ''primary'',
      size_c = ''md'', text_c = ''loading'', props = [(''loading'', False)]\<rparr>)\<close>
  by (simp add: generateComponentCode_def)

lemma generateComponentCode_props_only:
  assumes "type_c c \<in> {''button'', ''card'', ''input'', ''badge'', ''alert''}"
  shows "\<exists>pre post. \<forall>p. generateComponentCode (c\<lparr>props := p\<rparr>) =
      pre @ join '' '' (map fst (filter snd p)) @ post"
proof -
  from assms have "type_c c = ''button'' \<or> type_c c = ''card'' \<or> type_c c = ''input'' \<or>
      type_c c = ''badge'' \<or> type_c c = ''alert''" by simp
  then show ?thesis
  proof (elim disjE)
    assume ty: "type_c c = ''button''"
    show ?thesis
      by (rule exI [of _ \<open>''<Button variant="'' @ variant c @ ''" size="'' @ size_c c @ ''" ''\<close>],
          rule exI [of _ \<open>''>'' @ nl @ ''  '' @ text_c c @ nl @ ''</Button>''\<close>])
        (simp add: generateComponentCode_def Let_def ty)
  next
    assume ty: "type_c c = ''card''"
    show ?thesis
      by (rule exI [of _ \<open>''<Card className="'' @
              (if size_c c = ''lg'' then ''p-6'' else ''p-4'') @ ''" ''\<close>],
          rule exI [of _ \<open>''>'' @ nl @ ''  <CardHeader>'' @ nl @
              ''    <CardTitle>'' @ text_c c @ ''</CardTitle>'' @ nl @
              ''  </CardHeader>'' @ nl @ ''  <CardContent>'' @ nl @
              ''    Card content goes here...'' @ nl @ ''  </CardContent>'' @ nl @
              ''</Card>''\<close>])
        (simp add: generateComponentCode_def Let_def ty)
  next
    assume ty: "type_c c = ''input''"
    show ?thesis
      by (rule exI [of _ \<open>''<Input '' @ nl @ ''  placeholder="'' @ text_c c @ ''"'' @ nl @
              ''  size="'' @ size_c c @ ''"'' @ nl @ ''  ''\<close>],
          rule exI [of _ \<open>nl @ ''/>''\<close>])
        (simp add: generateComponentCode_def Let_def ty)
  next
    assume ty: "type_c c = ''badge''"
    show ?thesis
      by (rule exI [of _ \<open>''<Badge variant="'' @ variant c @ ''" ''\<close>],
          rule exI [of _ \<open>''>'' @ nl @ ''  '' @ text_c c @ nl @ ''</Badge>''\<close>])
        (simp add: generateComponentCode_def Let_def ty)
  next
    assume ty: "type_c c = ''alert''"
    show ?thesis
      by (rule exI [of _ \<open>''<Alert variant="'' @ variant c @ ''" ''\<close>],
          rule exI [of _ \<open>''>'' @ nl @ ''  <AlertDescription>'' @ nl @
              ''    '' @ text_c c @ nl @ ''  </AlertDescription>'' @ nl @ ''</Alert>''\<close>])
        (simp add: generateComponentCode_def Let_def ty)
  qed
qed

lemma true_props_set:
  assumes "distinct (map fst ps)"
  shows "set (map fst (filter snd ps)) = {n. map_of ps n = Some True}"
  using assms by (induction ps) (auto simp: image_iff)

text \<open>
  Claim C5, amended. For a configuration of one of the five types whose props mapping
  has each name once, the props enter the snippet only as one list: the names of the
  props whose value is true, space-separated in the iteration order of the mapping,
  between a head and a tail that do not depend on the props. The snippet contains that
  list, and a name is in it exactly when the mapping binds it to true, so the name of a
  false prop is not an item of the list (the text, the variant, the size or the template
  may still contain it). For the button with variant primary, size md, text Click me and
  props disabled true, loading false, the snippet contains \<^verbatim>\<open>variant="primary"\<close>,
  \<^verbatim>\<open>size="md"\<close>, \<open>disabled\<close> and \<open>Click me\<close>, and does not contain \<open>loading\<close>.
\<close>

theorem generateComponentCode_true_props:
  assumes "type_c c \<in> {''button'', ''card'', ''input'', ''badge'', ''alert''}"
    and "distinct (map fst (props c))"
  shows \<open>(\<exists>pre post. \<forall>p. generateComponentCode (c\<lparr>props := p\<rparr>) =
            pre @ join '' '' (map fst (filter snd p)) @ post) \<and>
    contains (join '' '' (map fst (filter snd (props c)))) (generateComponentCode c) \<and>
    set (map fst (filter snd (props c))) = {n. map_of (props c) n = Some True} \<and>
    contains ''variant="primary"'' (generateComponentCode
      \<lparr>type_c = ''button'', variant = ''primary'', size_c = ''md'', text_c = ''Click me'',
       props = obj_literal [(''disabled'', True), (''loading'', False)]\<rparr>) \<and>
    contains ''size="md"'' (generateComponentCode
      \<lparr>type_c = ''button'', variant = ''primary'', size_c = ''md'', text_c = ''Click me'',
       props = obj_literal [(''disabled'', True), (''loading'', False)]\<rparr>) \<and>
    contains ''disabled'' (generateComponentCode
      \<lparr>type_c = ''button'', variant = ''primary'', size_c = ''md'', text_c = ''Click me'',
       props = obj_literal [(''disabled'', True), (''loading'', False)]\<rparr>) \<and>
    contains ''Click me'' (generateComponentCode
      \<lparr>type_c = ''button'', variant = ''primary'', size_c = ''md'', text_c = ''Click me'',
       props = obj_literal [(''disabled'', True), (''loading'', False)]\<rparr>) \<and>
    \<not> contains ''loading'' (generateComponentCode
      \<lparr>type_c = ''button'', variant = ''primary'', size_c = ''md'', text_c = ''Click me'',
       props = obj_literal [(''disabled'', True), (''loading'', False)]\<rparr>)\<close>
proof -
  from generateComponentCode_props_only [OF assms(1)] obtain pre post
    where shape: "\<And>p. generateComponentCode (c\<lparr>props := p\<rparr>) =
      pre @ join '' '' (map fst (filter snd p)) @ post" by blast
  have "generateComponentCode c = pre @ join '' '' (map fst (filter snd (props c))) @ post"
    using shape [of "props c"] by simp
  then have inside: "contains (join '' '' (map fst (filter snd (props c))))
      (generateComponentCode c)"
    by (simp add: contains_middle)
  have lit: "obj_literal [(''disabled'', True), (''loading'', False)] =
      [(''disabled'', True), (''loading'', False)]"
    by (simp add: obj_literal_def obj_put_def is_array_index_def is_digit_def)
  have ex: \<open>generateComponentCode
      \<lparr>type_c = ''button'', variant = ''primary'', size_c = ''md'', text_c = ''Click me'',
       props = obj_literal [(''disabled'', True), (''loading'', False)]\<rparr> =
      ''<Button variant="primary" size="md" disabled>'' @ nl @ ''  Click me'' @ nl @
      ''</Button>''\<close>
    by (simp add: generateComponentCode_def lit)
  show ?thesis
    unfolding ex using generateComponentCode_props_only [OF assms(1)] inside
      true_props_set [OF assms(2)]
    by simp
qed

theorem generateComponentCode_true_props_witness:
  \<open>''button'' \<in> {''button'', ''card'', ''input'', ''badge'', ''alert''} \<and>
   distinct (map fst [(''disabled'', True), (''loading'', False)]) \<and>
   contains ''disabled'' (generateComponentCode
      \<lparr>type_c = ''button'', variant = ''primary'', size_c = ''md'', text_c = ''Click me'',
       props = [(''disabled'', True), (''loading'', False)]\<rparr>) \<and>
   {n. map_of [(''disabled'', True), (''loading'', False)] n = Some True} = {''disabled''}\<close>
  using generateComponentCode_true_props [of "\<lparr>type_c = ''button'', variant = ''primary'',
    size_c = ''md'', text_c = ''Click me'',
    props = [(''disabled'', True), (''loading'', False)]\<rparr>"]
  by simp

subsection \<open>Exporters: loops that append text\<close>

lemma foldl_append_text: "foldl (\<lambda>acc x. acc @ f x) a xs = a @ concat (map f xs)"
  by (induction xs arbitrary: a) auto

lemma map_enumerate_index:
  "map f (enumerate 0 xs) = map (\<lambda>i. f (i, xs ! i)) [0..<length xs]"
  by (rule nth_equalityI) (simp_all add: nth_enumerate_eq)

lemma css_pairs_loop:
  "foldl (\<lambda>css (k, x). css @ g k x) a kxs = a @ concat (map (\<lambda>(k, x). g k x) kxs)"
  by (induction kxs arbitrary: a) auto

lemma css_colors_loop:
  "foldl (\<lambda>css (colorName, shades).
      foldl (\<lambda>css (shade, val). css @ g colorName shade val) css shades) a cs =
   a @ concat (map (\<lambda>(colorName, shades).
      concat (map (\<lambda>(shade, val). g colorName shade val) shades)) cs)"
  by (induction cs arbitrary: a) (auto simp: css_pairs_loop)

lemma css_index_loop:
  "foldl (\<lambda>css (index, x). css @ g index x) a (enumerate 0 xs) =
   a @ concat (map (\<lambda>i. g i (xs ! i)) [0..<length xs])"
  by (simp add: css_pairs_loop map_enumerate_index)

lemma generateCSS_text:
  "generateCSS ds =
     '':root {'' @ nl @
     concat (map (\<lambda>(colorName, shades). concat (map (\<lambda>(shade, val).
         ''  --'' @ colorName @ ''-'' @ shade @ '': '' @ val @ '';'' @ nl) shades)) (colors ds)) @
     concat (map (\<lambda>(size, props).
         ''  --text-'' @ size @ '': '' @ size_e props @ '';'' @ nl @
         ''  --leading-'' @ size @ '': '' @ lineHeight props @ '';'' @ nl @
         ''  --weight-'' @ size @ '': '' @ weight props @ '';'' @ nl) (typography ds)) @
     concat (map (\<lambda>i. ''  --spacing-'' @ num (int i + 1) @ '': '' @ spacing ds ! i @ '';'' @ nl)
       [0..<length (spacing ds)]) @
     concat (map (\<lambda>i. ''  --radius-'' @ num (int i) @ '': '' @ borderRadius ds ! i @ '';'' @ nl)
       [0..<length (borderRadius ds)]) @
     ''  --font-family: '' @ fontFamily ds @ '';'' @ nl @ ''}'' @ nl"
  unfolding generateCSS_def Let_def css_colors_loop css_index_loop
  by (simp add: css_pairs_loop [where g = "\<lambda>size props.
         ''  --text-'' @ size @ '': '' @ size_e props @ '';'' @ nl @
         ''  --leading-'' @ size @ '': '' @ lineHeight props @ '';'' @ nl @
         ''  --weight-'' @ size @ '': '' @ weight props @ '';'' @ nl", simplified])

lemma generateCSS_declarations:
  "generateCSS ds = css_root_block
     (concat (map (\<lambda>(role, shades). map (\<lambda>(step, val). (role @ ''-'' @ step, val)) shades)
        (colors ds)) @
      concat (map (\<lambda>(size, entry).
          [(''text-'' @ size, size_e entry), (''leading-'' @ size, lineHeight entry),
           (''weight-'' @ size, weight entry)]) (typography ds)) @
      map (\<lambda>i. (''spacing-'' @ num (int i + 1), spacing ds ! i)) [0..<length (spacing ds)] @
      map (\<lambda>i. (''radius-'' @ num (int i), borderRadius ds ! i))
        [0..<length (borderRadius ds)] @
      [(''font-family'', fontFamily ds)])"
proof -
  have colors_part: "concat (map (\<lambda>(property, val). css_decl property val)
        (concat (map (\<lambda>(role, shades). map (\<lambda>(step, val). (role @ ''-'' @ step, val)) shades)
          cs))) =
      concat (map (\<lambda>(colorName, shades). concat (map (\<lambda>(shade, val).
         ''  --'' @ colorName @ ''-'' @ shade @ '': '' @ val @ '';'' @ nl) shades)) cs)" for cs
    by (induction cs) (auto simp: css_decl_def comp_def split_def)
  have typo_part: "concat (map (\<lambda>(property, val). css_decl property val)
        (concat (map (\<lambda>(size, entry).
          [(''text-'' @ size, size_e entry), (''leading-'' @ size, lineHeight entry),
           (''weight-'' @ size, weight entry)]) ts))) =
      concat (map (\<lambda>(size, props).
         ''  --text-'' @ size @ '': '' @ size_e props @ '';'' @ nl @
         ''  --leading-'' @ size @ '': '' @ lineHeight props @ '';'' @ nl @
         ''  --weight-'' @ size @ '': '' @ weight props @ '';'' @ nl) ts)" for ts
    by (induction ts) (auto simp: css_decl_def)
  show ?thesis
    unfolding generateCSS_text css_root_block_def map_append concat_append colors_part typo_part
    by (simp add: css_decl_def comp_def)
qed

text \<open>
  Claim C7. The stylesheet export is a single \<^verbatim>\<open>:root\<close> block with one declaration
  per line, in this order: the colour declarations \<open>--role-step\<close>, roles in their order
  and within each role the steps in their order; for each typography size the three
  declarations \<open>--text-size\<close>, \<open>--leading-size\<close>, \<open>--weight-size\<close>; the spacing
  declarations \<open>--spacing-(i+1)\<close> in array order; the radius declarations \<open>--radius-i\<close>
  in array order; and \<open>--font-family\<close> last. It holds for every design system, so for
  every well-formed one.
\<close>

theorem generateCSS_order:
  "generateCSS ds = css_root_block
     (concat (map (\<lambda>(role, shades). map (\<lambda>(step, val). (role @ ''-'' @ step, val)) shades)
        (colors ds)) @
      concat (map (\<lambda>(size, entry).
          [(''text-'' @ size, size_e entry), (''leading-'' @ size, lineHeight entry),
           (''weight-'' @ size, weight entry)]) (typography ds)) @
      map (\<lambda>i. (''spacing-'' @ num (int i + 1), spacing ds ! i)) [0..<length (spacing ds)] @
      map (\<lambda>i. (''radius-'' @ num (int i), borderRadius ds ! i))
        [0..<length (borderRadius ds)] @
      [(''font-family'', fontFamily ds)])"
  by (rule generateCSS_declarations)

subsection \<open>Exporters: loops that assign properties\<close>

lemma obj_put_all_simps:
  "obj_put_all ob [] = ob"
  "obj_put_all ob ((k, v) # kvs) = obj_put_all (obj_put ob k v) kvs"
  by (simp_all add: obj_put_all_def)

lemma obj_put_all_append: "obj_put_all ob (xs @ ys) = obj_put_all (obj_put_all ob xs) ys"
  by (simp add: obj_put_all_def)

lemma obj_put_all_names:
  assumes "distinct (map fst kvs)"
    and "list_all (\<lambda>k. \<not> is_array_index k) (map fst kvs)"
    and "fst ` set ob \<inter> fst ` set kvs = {}"
  shows "obj_put_all ob kvs = ob @ kvs"
  using assms
proof (induction kvs arbitrary: ob)
  case Nil
  show ?case by (simp add: obj_put_all_simps)
next
  case (Cons kv kvs)
  obtain k v where kv: "kv = (k, v)" by (cases kv)
  have new: "k \<notin> fst ` set ob" and name: "\<not> is_array_index k"
    using Cons.prems kv by auto
  then have put: "obj_put ob k v = ob @ [(k, v)]"
    by (rule obj_put_new_name)
  have d: "distinct (map fst kvs)" and n: "list_all (\<lambda>k. \<not> is_array_index k) (map fst kvs)"
    using Cons.prems by simp_all
  have "k \<notin> fst ` set kvs" using Cons.prems(1) kv by force
  with Cons.prems(3) have "fst ` set (ob @ [(k, v)]) \<inter> fst ` set kvs = {}"
    by auto
  from Cons.IH [OF d n this] put kv show ?case
    by (simp add: obj_put_all_simps)
qed

lemma obj_literal_names:
  "distinct (map fst kvs) \<Longrightarrow> list_all (\<lambda>k. \<not> is_array_index k) (map fst kvs) \<Longrightarrow>
   obj_literal kvs = kvs"
  using obj_put_all_names [of kvs "[]"] by (simp add: obj_literal_def obj_put_all_def)

lemma obj_literal_empty: "obj_literal [] = []"
  by (simp add: obj_literal_def)

lemma put_pairs_loop:
  "foldl (\<lambda>ob (k, x). obj_put ob (kf k) (vf x)) ob kxs =
   obj_put_all ob (map (\<lambda>(k, x). (kf k, vf x)) kxs)"
  by (induction kxs arbitrary: ob) (auto simp: obj_put_all_simps)

lemma put_colors_loop:
  "foldl (\<lambda>ob (colorName, shades).
      foldl (\<lambda>ob (shade, val). obj_put ob (kf colorName shade) (vf val)) ob shades) ob cs =
   obj_put_all ob
     (concat (map (\<lambda>(colorName, shades).
        map (\<lambda>(shade, val). (kf colorName shade, vf val)) shades) cs))"
  by (induction cs arbitrary: ob)
    (auto simp: put_pairs_loop obj_put_all_simps obj_put_all_append)

lemma put_typography_loop:
  "foldl (\<lambda>ob (size, props).
      obj_put (obj_put (obj_put ob (k1 size) (v1 props)) (k2 size) (v2 props))
        (k3 size) (v3 props)) ob ts =
   obj_put_all ob
     (concat (map (\<lambda>(size, props).
        [(k1 size, v1 props), (k2 size, v2 props), (k3 size, v3 props)]) ts))"
  by (induction ts arbitrary: ob) (auto simp: obj_put_all_simps)

lemma put_index_loop:
  "foldl (\<lambda>ob (index, x). obj_put ob (kf index) (vf x)) ob (enumerate 0 xs) =
   obj_put_all ob (map (\<lambda>i. (kf i, vf (xs ! i))) [0..<length xs])"
  by (simp add: put_pairs_loop map_enumerate_index)

lemma keys_disjoint_by_hd:
  "\<forall>k\<in>A. hd k = a \<Longrightarrow> \<forall>k\<in>B. hd k = b \<Longrightarrow> a \<noteq> b \<Longrightarrow> A \<inter> B = {}"
  by auto

lemma not_index_by_hd:
  "\<forall>k\<in>set ks. hd k = a \<Longrightarrow> \<not> is_digit a \<Longrightarrow> list_all (\<lambda>k. \<not> is_array_index k) ks"
  by (auto simp: list_all_iff dest: not_index_if_not_digit)

lemma distinct_index_keys: "distinct (map (\<lambda>i. p @ show_nat (i + c)) [0..<n])"
  by (auto simp: distinct_map inj_on_def dest: show_nat_inj)

lemma color_keys:
  assumes "map fst cs = rs" and "list_all (\<lambda>shades. map fst shades = ks) (map snd cs)"
  shows "map fst (concat (map (\<lambda>(colorName, shades).
      map (\<lambda>(shade, val). (kf colorName shade, vf val)) shades) cs)) =
    concat (map (\<lambda>r. map (kf r) ks) rs)"
  using assms by (induction cs arbitrary: rs) (auto simp: comp_def split_def)

lemma typography_keys:
  "map fst (concat (map (\<lambda>(size, props).
      [(k1 size, v1 props), (k2 size, v2 props), (k3 size, v3 props)]) ts)) =
   concat (map (\<lambda>size. [k1 size, k2 size, k3 size]) (map fst ts))"
  by (induction ts) auto


lemma figma_color_keys_distinct:
  "distinct (concat (map (\<lambda>r. map (\<lambda>s. ''color/'' @ r @ ''/'' @ s) step_keys) role_names))"
  by (simp add: step_keys_def role_names_def)

lemma figma_typography_keys_distinct:
  "distinct (concat (map (\<lambda>size. [''typography/'' @ size @ ''/size'',
      ''typography/'' @ size @ ''/lineHeight'', ''typography/'' @ size @ ''/weight''])
    size_keys))"
  by (simp add: size_keys_def)

lemma distinct_keys_by_hd:
  assumes "distinct A" "distinct B" "distinct C" "distinct D"
    and "\<forall>k\<in>set A. hd k = a" "\<forall>k\<in>set B. hd k = b" "\<forall>k\<in>set C. hd k = c"
    and "\<forall>k\<in>set D. hd k = d" "hd e = e0"
    and "distinct [a, b, c, d, e0]"
  shows "distinct (A @ B @ C @ D @ [e])"
  using assms by auto

lemma figmaVariables_entries:
  assumes "wf_DesignSystem ds"
  shows "figmaVariables ds =
     concat (map (\<lambda>(role, shades).
        map (\<lambda>(step, val). (''color/'' @ role @ ''/'' @ step, val)) shades) (colors ds)) @
     concat (map (\<lambda>(size, entry).
        [(''typography/'' @ size @ ''/size'', size_e entry),
         (''typography/'' @ size @ ''/lineHeight'', lineHeight entry),
         (''typography/'' @ size @ ''/weight'', weight entry)]) (typography ds)) @
     map (\<lambda>i. (''spacing/'' @ num (int i + 1), spacing ds ! i)) [0..<length (spacing ds)] @
     map (\<lambda>i. (''radius/'' @ num (int i), borderRadius ds ! i))
       [0..<length (borderRadius ds)] @
     [(''font/family'', fontFamily ds)]"
    (is "_ = ?A @ ?B @ ?C @ ?D @ [?E]")
proof -
  have loops: "figmaVariables ds = obj_put_all [] (?A @ ?B @ ?C @ ?D @ [?E])"
    unfolding figmaVariables_def Let_def
      put_colors_loop [where vf = "\<lambda>x. x"] put_typography_loop
      put_index_loop [where vf = "\<lambda>x. x"]
    by (simp add: obj_put_all_append obj_put_all_simps obj_literal_empty)
  define KA where "KA = map fst ?A"
  define KB where "KB = map fst ?B"
  define KC where "KC = map fst ?C"
  define KD where "KD = map fst ?D"
  from assms have roles: "map fst (colors ds) = role_names"
    and steps: "list_all (\<lambda>shades. map fst shades = step_keys) (map snd (colors ds))"
    and sizes: "map fst (typography ds) = size_keys"
    by (simp_all add: wf_DesignSystem_def)
  have KA: "KA = concat (map (\<lambda>r. map (\<lambda>s. ''color/'' @ r @ ''/'' @ s) step_keys) role_names)"
    unfolding KA_def by (rule color_keys [OF roles steps, where vf = "\<lambda>x. x"])
  have KB: "KB = concat (map (\<lambda>size. [''typography/'' @ size @ ''/size'',
      ''typography/'' @ size @ ''/lineHeight'', ''typography/'' @ size @ ''/weight''])
      size_keys)"
    unfolding KB_def typography_keys sizes ..
  have KC: "KC = map (\<lambda>i. ''spacing/'' @ show_nat (i + 1)) [0..<length (spacing ds)]"
    unfolding KC_def by (simp add: comp_def num_index)
  have KD: "KD = map (\<lambda>i. ''radius/'' @ show_nat (i + 0)) [0..<length (borderRadius ds)]"
    unfolding KD_def by (simp add: comp_def num_index)
  have dA: "distinct KA" unfolding KA by (rule figma_color_keys_distinct)
  have dB: "distinct KB" unfolding KB by (rule figma_typography_keys_distinct)
  have dC: "distinct KC" unfolding KC by (rule distinct_index_keys)
  have dD: "distinct KD" unfolding KD by (rule distinct_index_keys)
  have hA: "\<forall>k\<in>set KA. hd k = CHR ''c''" unfolding KA by auto
  have hB: "\<forall>k\<in>set KB. hd k = CHR ''t''" unfolding KB by auto
  have hC: "\<forall>k\<in>set KC. hd k = CHR ''s''" unfolding KC by auto
  have hD: "\<forall>k\<in>set KD. hd k = CHR ''r''" unfolding KD by auto
  have keys: "map fst (?A @ ?B @ ?C @ ?D @ [?E]) = KA @ KB @ KC @ KD @ [''font/family'']"
    by (simp add: KA_def KB_def KC_def KD_def)
  have "distinct (KA @ KB @ KC @ KD @ [''font/family''])"
    by (rule distinct_keys_by_hd [OF dA dB dC dD hA hB hC hD, where ?e0.0 = "CHR ''f''"])
      simp_all
  moreover have "\<forall>k\<in>set (KA @ KB @ KC @ KD @ [''font/family'']). \<not> is_digit (hd k)"
    using hA hB hC hD by (auto simp: is_digit_def)
  then have "list_all (\<lambda>k. \<not> is_array_index k) (KA @ KB @ KC @ KD @ [''font/family''])"
    unfolding list_all_iff using not_index_if_not_digit by blast
  ultimately have "obj_put_all [] (?A @ ?B @ ?C @ ?D @ [?E]) = [] @ (?A @ ?B @ ?C @ ?D @ [?E])"
    unfolding keys [symmetric] by (intro obj_put_all_names) simp_all
  with loops show ?thesis by simp
qed

lemma fold_index_keys0:
  "foldl (\<lambda>acc (index, x). obj_put acc (show_nat index) (f x)) [] (enumerate 0 xs) =
   map (\<lambda>i. (show_nat i, f (xs ! i))) [0..<length xs]"
  using fold_index_keys [where c = 0 and f = f and xs = xs] by simp

lemma obj_put_in_last:
  assumes "c \<notin> fst ` set acc"
  shows "obj_put_in (acc @ [(c, JObject m)]) c k v = acc @ [(c, JObject (obj_put m k v))]"
proof -
  have "map (\<lambda>(k', sub). if k' = c
          then (k', case sub of JObject m \<Rightarrow> JObject (obj_put m k v) | _ \<Rightarrow> sub)
          else (k', sub)) acc = acc"
    using assms by (induction acc) auto
  then show ?thesis by (simp add: obj_put_in_def)
qed

lemma put_in_shades_loop:
  assumes "c \<notin> fst ` set acc"
  shows "foldl (\<lambda>ob (shade, val). obj_put_in ob c shade (vf val)) (acc @ [(c, JObject m)]) shades =
    acc @ [(c, JObject (obj_put_all m (map (\<lambda>(shade, val). (shade, vf val)) shades)))]"
  by (induction shades arbitrary: m)
    (auto simp: obj_put_in_last [OF assms] obj_put_all_simps)

lemma steps_put_all:
  assumes "map fst kvs = step_keys"
  shows "obj_put_all [] kvs = kvs"
proof -
  from assms obtain a b c d e f g h i j where
    "kvs = [(''50'', a), (''100'', b), (''200'', c), (''300'', d), (''400'', e),
       (''500'', f), (''600'', g), (''700'', h), (''800'', i), (''900'', j)]"
    unfolding step_keys_def by (auto simp: map_eq_Cons_conv)
  then show ?thesis
    using obj_literal_steps [of a b c d e f g h i j]
    by (simp add: obj_literal_def obj_put_all_def)
qed

lemma put_colors_nested:
  assumes "distinct (map fst cs)"
    and "list_all (\<lambda>k. \<not> is_array_index k) (map fst cs)"
    and "list_all (\<lambda>shades. map fst shades = step_keys) (map snd cs)"
    and "fst ` set acc \<inter> fst ` set cs = {}"
  shows "foldl (\<lambda>acc (colorName, shades).
        foldl (\<lambda>acc (shade, val). obj_put_in acc colorName shade (vf val))
          (obj_put acc colorName (JObject (obj_literal []))) shades) acc cs =
    acc @ map (\<lambda>(colorName, shades).
        (colorName, JObject (map (\<lambda>(shade, val). (shade, vf val)) shades))) cs"
  using assms
proof (induction cs arbitrary: acc)
  case Nil
  show ?case by simp
next
  case (Cons cs0 cs)
  obtain c shades where cs0: "cs0 = (c, shades)" by (cases cs0)
  have new: "c \<notin> fst ` set acc" and name: "\<not> is_array_index c"
    and keys: "map fst shades = step_keys"
    using Cons.prems cs0 by auto
  have put: "obj_put acc c (JObject (obj_literal [])) = acc @ [(c, JObject [])]"
    using new name by (simp add: obj_put_new_name obj_literal_empty)
  have "map fst (map (\<lambda>(shade, val). (shade, vf val)) shades) = step_keys"
    using keys by (simp add: comp_def split_def)
  then have inner: "obj_put_all [] (map (\<lambda>(shade, val). (shade, vf val)) shades) =
      map (\<lambda>(shade, val). (shade, vf val)) shades"
    by (rule steps_put_all)
  let ?entry = "(c, JObject (map (\<lambda>(shade, val). (shade, vf val)) shades))"
  have first: "foldl (\<lambda>acc (shade, val). obj_put_in acc c shade (vf val))
      (obj_put acc c (JObject (obj_literal []))) shades = acc @ [?entry]"
    unfolding put put_in_shades_loop [OF new] inner ..
  have d: "distinct (map fst cs)" and n: "list_all (\<lambda>k. \<not> is_array_index k) (map fst cs)"
    and s: "list_all (\<lambda>shades. map fst shades = step_keys) (map snd cs)"
    using Cons.prems by simp_all
  have "c \<notin> fst ` set cs" using Cons.prems(1) cs0 by force
  with Cons.prems(4) have "fst ` set (acc @ [?entry]) \<inter> fst ` set cs = {}"
    by auto
  from Cons.IH [OF d n s this] first cs0 show ?case by simp
qed

lemma role_names_ok:
  "distinct role_names" "list_all (\<lambda>k. \<not> is_array_index k) role_names"
  by (simp_all add: role_names_def is_array_index_def is_digit_def)

lemma size_keys_ok:
  "distinct size_keys" "list_all (\<lambda>k. \<not> is_array_index k) size_keys"
  by (simp_all add: size_keys_def is_array_index_def is_digit_def)

lemma put_colors_wf:
  assumes "wf_DesignSystem ds"
  shows "foldl (\<lambda>acc (colorName, shades).
        foldl (\<lambda>acc (shade, val). obj_put_in acc colorName shade (vf val))
          (obj_put acc colorName (JObject (obj_literal []))) shades) (obj_literal [])
        (colors ds) =
    map (\<lambda>(colorName, shades).
        (colorName, JObject (map (\<lambda>(shade, val). (shade, vf val)) shades))) (colors ds)"
proof -
  from assms have roles: "map fst (colors ds) = role_names"
    and steps: "list_all (\<lambda>shades. map fst shades = step_keys) (map snd (colors ds))"
    by (simp_all add: wf_DesignSystem_def)
  show ?thesis
    using put_colors_nested [of "colors ds" "[]" vf] steps
    by (simp add: roles role_names_ok obj_literal_empty)
qed

lemma obj_literal_skeleton:
  "obj_literal [(''theme'', a)] = [(''theme'', a)]"
  "obj_literal [(''extend'', a)] = [(''extend'', a)]"
  "obj_literal [(''sans'', a)] = [(''sans'', a)]"
  "obj_literal [(''global'', a)] = [(''global'', a)]"
  "obj_literal [(''colors'', a), (''fontFamily'', b), (''fontSize'', c), (''spacing'', d),
      (''borderRadius'', e)] =
    [(''colors'', a), (''fontFamily'', b), (''fontSize'', c), (''spacing'', d),
      (''borderRadius'', e)]"
  "obj_literal [(''colors'', a), (''typography'', b), (''spacing'', c), (''borderRadius'', d)] =
    [(''colors'', a), (''typography'', b), (''spacing'', c), (''borderRadius'', d)]"
  "obj_literal [(''value'', a), (''type'', b)] = [(''value'', a), (''type'', b)]"
  "obj_literal [(''fontSize'', a), (''lineHeight'', b), (''fontWeight'', c),
      (''fontFamily'', d)] =
    [(''fontSize'', a), (''lineHeight'', b), (''fontWeight'', c), (''fontFamily'', d)]"
  by (simp_all add: obj_literal_names is_array_index_def is_digit_def)

lemma tailwindConfig_entries:
  assumes "wf_DesignSystem ds"
  shows "tailwindConfig ds =
    JObject [(''theme'', JObject [(''extend'', JObject
      [(''colors'', JObject (map (\<lambda>(role, shades).
          (role, JObject (map (\<lambda>(step, val). (step, JString val)) shades))) (colors ds))),
       (''fontFamily'', JObject [(''sans'', JArray [JString (fontFamily ds)])]),
       (''fontSize'', json_of_typography (typography ds)),
       (''spacing'', JObject (map (\<lambda>i. (num (int i + 1), JString (spacing ds ! i)))
          [0..<length (spacing ds)])),
       (''borderRadius'', JObject (map (\<lambda>i. (num (int i), JString (borderRadius ds ! i)))
          [0..<length (borderRadius ds)]))])])]"
  using put_colors_wf [OF assms, where vf = JString]
  unfolding tailwindConfig_def Let_def obj_literal_skeleton obj_literal_empty num_index
    fold_index_keys fold_index_keys0
  by simp

lemma tokensStudio_entries:
  assumes "wf_DesignSystem ds"
  shows "tokensStudio ds =
    JObject [(''global'', JObject
      [(''colors'', JObject (map (\<lambda>(role, shades).
          (role, JObject (map (\<lambda>(step, val).
             (step, JObject [(''value'', JString val), (''type'', JString ''color'')]))
             shades))) (colors ds))),
       (''typography'', JObject (map (\<lambda>(size, entry).
          (size, JObject
             [(''value'', JObject
                 [(''fontSize'', JString (size_e entry)),
                  (''lineHeight'', JString (lineHeight entry)),
                  (''fontWeight'', JString (weight entry)),
                  (''fontFamily'', JString (fontFamily ds))]),
              (''type'', JString ''typography'')])) (typography ds))),
       (''spacing'', JObject (map (\<lambda>i. (num (int i + 1),
            JObject [(''value'', JString (spacing ds ! i)), (''type'', JString ''spacing'')]))
          [0..<length (spacing ds)])),
       (''borderRadius'', JObject (map (\<lambda>i. (num (int i),
            JObject [(''value'', JString (borderRadius ds ! i)),
                     (''type'', JString ''borderRadius'')]))
          [0..<length (borderRadius ds)]))])]"
proof -
  from assms have sizes: "map fst (typography ds) = size_keys"
    by (simp add: wf_DesignSystem_def)
  have typo: "foldl (\<lambda>acc (size, props). obj_put acc size (vf props)) (obj_literal [])
      (typography ds) = map (\<lambda>(size, props). (size, vf props)) (typography ds)" for vf
  proof -
    have "map fst (map (\<lambda>(size, props). (size, vf props)) (typography ds)) = size_keys"
      using sizes by (simp add: comp_def split_def)
    then have "obj_put_all [] (map (\<lambda>(size, props). (size, vf props)) (typography ds)) =
        [] @ map (\<lambda>(size, props). (size, vf props)) (typography ds)"
      by (intro obj_put_all_names) (simp_all add: size_keys_ok)
    then show ?thesis
      using put_pairs_loop [where kf = "\<lambda>k. k" and vf = vf and ob = "[]"
          and kxs = "typography ds"]
      by (simp add: obj_literal_empty)
  qed
  show ?thesis
    using put_colors_wf [OF assms,
        where vf = "\<lambda>val. JObject [(''value'', JString val), (''type'', JString ''color'')]"]
      typo [of "\<lambda>props. JObject
         [(''value'', JObject
             [(''fontSize'', JString (size_e props)),
              (''lineHeight'', JString (lineHeight props)),
              (''fontWeight'', JString (weight props)),
              (''fontFamily'', JString (fontFamily ds))]),
          (''type'', JString ''typography'')]"]
    unfolding tokensStudio_def Let_def obj_literal_skeleton obj_literal_empty num_index
      fold_index_keys [where f = "\<lambda>space. JObject [(''value'', JString space),
        (''type'', JString ''spacing'')]"]
      fold_index_keys0 [where f = "\<lambda>radius. JObject [(''value'', JString radius),
        (''type'', JString ''borderRadius'')]"]
    by simp
qed

subsection \<open>Exporters: the five formats\<close>

lemma generateSCSSVariables_text:
  "generateSCSSVariables ds =
     ''// '' @ name ds @ '' - Design System Variables'' @ nl @ nl @
     ''// Colors'' @ nl @
     concat (map (\<lambda>(colorName, shades). concat (map (\<lambda>(shade, val).
         ''$'' @ colorName @ ''-'' @ shade @ '': '' @ val @ '';'' @ nl) shades)) (colors ds)) @
     nl @ ''// Typography'' @ nl @
     ''$font-family-base: '' @ fontFamily ds @ '';'' @ nl @
     concat (map (\<lambda>(size, props).
         ''$font-size-'' @ size @ '': '' @ size_e props @ '';'' @ nl @
         ''$line-height-'' @ size @ '': '' @ lineHeight props @ '';'' @ nl @
         ''$font-weight-'' @ size @ '': '' @ weight props @ '';'' @ nl) (typography ds)) @
     nl @ ''// Spacing'' @ nl @
     concat (map (\<lambda>i. ''$spacing-'' @ num (int i + 1) @ '': '' @ spacing ds ! i @ '';'' @ nl)
       [0..<length (spacing ds)]) @
     nl @ ''// Border Radius'' @ nl @
     concat (map (\<lambda>i. ''$border-radius-'' @ num (int i) @ '': '' @ borderRadius ds ! i @ '';'' @ nl)
       [0..<length (borderRadius ds)])"
  unfolding generateSCSSVariables_def Let_def css_colors_loop css_index_loop
  by (simp add: css_pairs_loop [where g = "\<lambda>size props.
         ''$font-size-'' @ size @ '': '' @ size_e props @ '';'' @ nl @
         ''$line-height-'' @ size @ '': '' @ lineHeight props @ '';'' @ nl @
         ''$font-weight-'' @ size @ '': '' @ weight props @ '';'' @ nl", simplified])

text \<open>
  Claim C2. In each of the five export formats the spacing entry at index \<open>i\<close> of the
  sequence is exported under the key \<open>i + 1\<close> and the radius entry at index \<open>i\<close>
  under the key \<open>i\<close>, for every index of the two sequences and in their order:
  \<^verbatim>\<open>spacing/<i+1>\<close> and \<^verbatim>\<open>radius/<i>\<close> in the structured variables,
  \<^verbatim>\<open>--spacing-<i+1>\<close> and \<^verbatim>\<open>--radius-<i>\<close> in the stylesheet, the keys \<open>i + 1\<close> of
  \<open>spacing\<close> and \<open>i\<close> of \<open>borderRadius\<close> in the build-tool configuration and in the
  design-token file, \<^verbatim>\<open>$spacing-<i+1>\<close> and \<^verbatim>\<open>$border-radius-<i>\<close> in the
  preprocessor variables. The theorem gives the whole output of each exporter on a
  well-formed design system.
\<close>

theorem export_index_keys:
  assumes "wf_DesignSystem ds"
  shows
    "generateFigmaVariables ds = JSON_stringify (json_of_strings
       (concat (map (\<lambda>(role, shades).
          map (\<lambda>(step, val). (''color/'' @ role @ ''/'' @ step, val)) shades) (colors ds)) @
        concat (map (\<lambda>(size, entry).
          [(''typography/'' @ size @ ''/size'', size_e entry),
           (''typography/'' @ size @ ''/lineHeight'', lineHeight entry),
           (''typography/'' @ size @ ''/weight'', weight entry)]) (typography ds)) @
        map (\<lambda>i. (''spacing/'' @ num (int i + 1), spacing ds ! i)) [0..<length (spacing ds)] @
        map (\<lambda>i. (''radius/'' @ num (int i), borderRadius ds ! i))
          [0..<length (borderRadius ds)] @
        [(''font/family'', fontFamily ds)])) \<and>
     generateCSS ds = css_root_block
       (concat (map (\<lambda>(role, shades). map (\<lambda>(step, val). (role @ ''-'' @ step, val)) shades)
          (colors ds)) @
        concat (map (\<lambda>(size, entry).
          [(''text-'' @ size, size_e entry), (''leading-'' @ size, lineHeight entry),
           (''weight-'' @ size, weight entry)]) (typography ds)) @
        map (\<lambda>i. (''spacing-'' @ num (int i + 1), spacing ds ! i)) [0..<length (spacing ds)] @
        map (\<lambda>i. (''radius-'' @ num (int i), borderRadius ds ! i))
          [0..<length (borderRadius ds)] @
        [(''font-family'', fontFamily ds)]) \<and>
     generateTailwindConfig ds = JSON_stringify
       (JObject [(''theme'', JObject [(''extend'', JObject
          [(''colors'', JObject (map (\<lambda>(role, shades).
              (role, JObject (map (\<lambda>(step, val). (step, JString val)) shades))) (colors ds))),
           (''fontFamily'', JObject [(''sans'', JArray [JString (fontFamily ds)])]),
           (''fontSize'', json_of_typography (typography ds)),
           (''spacing'', JObject (map (\<lambda>i. (num (int i + 1), JString (spacing ds ! i)))
              [0..<length (spacing ds)])),
           (''borderRadius'', JObject (map (\<lambda>i. (num (int i), JString (borderRadius ds ! i)))
              [0..<length (borderRadius ds)]))])])]) \<and>
     generateSCSSVariables ds =
       ''// '' @ name ds @ '' - Design System Variables'' @ nl @ nl @
       ''// Colors'' @ nl @
       concat (map (\<lambda>(role, shades). concat (map (\<lambda>(step, val).
           ''$'' @ role @ ''-'' @ step @ '': '' @ val @ '';'' @ nl) shades)) (colors ds)) @
       nl @ ''// Typography'' @ nl @
       ''$font-family-base: '' @ fontFamily ds @ '';'' @ nl @
       concat (map (\<lambda>(size, entry).
           ''$font-size-'' @ size @ '': '' @ size_e entry @ '';'' @ nl @
           ''$line-height-'' @ size @ '': '' @ lineHeight entry @ '';'' @ nl @
           ''$font-weight-'' @ size @ '': '' @ weight entry @ '';'' @ nl) (typography ds)) @
       nl @ ''// Spacing'' @ nl @
       concat (map (\<lambda>i. ''$spacing-'' @ num (int i + 1) @ '': '' @ spacing ds ! i @ '';'' @ nl)
         [0..<length (spacing ds)]) @
       nl @ ''// Border Radius'' @ nl @
       concat (map (\<lambda>i.
           ''$border-radius-'' @ num (int i) @ '': '' @ borderRadius ds ! i @ '';'' @ nl)
         [0..<length (borderRadius ds)]) \<and>
     generateTokensStudio ds = JSON_stringify
       (JObject [(''global'', JObject
          [(''colors'', JObject (map (\<lambda>(role, shades).
              (role, JObject (map (\<lambda>(step, val).
                 (step, JObject [(''value'', JString val), (''type'', JString ''color'')]))
                 shades))) (colors ds))),
           (''typography'', JObject (map (\<lambda>(size, entry).
              (size, JObject
                 [(''value'', JObject
                     [(''fontSize'', JString (size_e entry)),
                      (''lineHeight'', JString (lineHeight entry)),
                      (''fontWeight'', JString (weight entry)),
                      (''fontFamily'', JString (fontFamily ds))]),
                  (''type'', JString ''typography'')])) (typography ds))),
           (''spacing'', JObject (map (\<lambda>i. (num (int i + 1),
                JObject [(''value'', JString (spacing ds ! i)), (''type'', JString ''spacing'')]))
              [0..<length (spacing ds)])),
           (''borderRadius'', JObject (map (\<lambda>i. (num (int i),
                JObject [(''value'', JString (borderRadius ds ! i)),
                         (''type'', JString ''borderRadius'')]))
              [0..<length (borderRadius ds)]))])])"
proof (intro conjI)
  show "generateFigmaVariables ds = JSON_stringify (json_of_strings
       (concat (map (\<lambda>(role, shades).
          map (\<lambda>(step, val). (''color/'' @ role @ ''/'' @ step, val)) shades) (colors ds)) @
        concat (map (\<lambda>(size, entry).
          [(''typography/'' @ size @ ''/size'', size_e entry),
           (''typography/'' @ size @ ''/lineHeight'', lineHeight entry),
           (''typography/'' @ size @ ''/weight'', weight entry)]) (typography ds)) @
        map (\<lambda>i. (''spacing/'' @ num (int i + 1), spacing ds ! i)) [0..<length (spacing ds)] @
        map (\<lambda>i. (''radius/'' @ num (int i), borderRadius ds ! i))
          [0..<length (borderRadius ds)] @
        [(''font/family'', fontFamily ds)]))"
    unfolding generateFigmaVariables_def figmaVariables_entries [OF assms] ..
next
  show "generateCSS ds = css_root_block
       (concat (map (\<lambda>(role, shades). map (\<lambda>(step, val). (role @ ''-'' @ step, val)) shades)
          (colors ds)) @
        concat (map (\<lambda>(size, entry).
          [(''text-'' @ size, size_e entry), (''leading-'' @ size, lineHeight entry),
           (''weight-'' @ size, weight entry)]) (typography ds)) @
        map (\<lambda>i. (''spacing-'' @ num (int i + 1), spacing ds ! i)) [0..<length (spacing ds)] @
        map (\<lambda>i. (''radius-'' @ num (int i), borderRadius ds ! i))
          [0..<length (borderRadius ds)] @
        [(''font-family'', fontFamily ds)])"
    by (rule generateCSS_declarations)
next
  show "generateTailwindConfig ds = JSON_stringify
       (JObject [(''theme'', JObject [(''extend'', JObject
          [(''colors'', JObject (map (\<lambda>(role, shades).
              (role, JObject (map (\<lambda>(step, val). (step, JString val)) shades))) (colors ds))),
           (''fontFamily'', JObject [(''sans'', JArray [JString (fontFamily ds)])]),
           (''fontSize'', json_of_typography (typography ds)),
           (''spacing'', JObject (map (\<lambda>i. (num (int i + 1), JString (spacing ds ! i)))
              [0..<length (spacing ds)])),
           (''borderRadius'', JObject (map (\<lambda>i. (num (int i), JString (borderRadius ds ! i)))
              [0..<length (borderRadius ds)]))])])])"
    unfolding generateTailwindConfig_def tailwindConfig_entries [OF assms] ..
next
  show "generateSCSSVariables ds =
       ''// '' @ name ds @ '' - Design System Variables'' @ nl @ nl @
       ''// Colors'' @ nl @
       concat (map (\<lambda>(role, shades). concat (map (\<lambda>(step, val).
           ''$'' @ role @ ''-'' @ step @ '': '' @ val @ '';'' @ nl) shades)) (colors ds)) @
       nl @ ''// Typography'' @ nl @
       ''$font-family-base: '' @ fontFamily ds @ '';'' @ nl @
       concat (map (\<lambda>(size, entry).
           ''$font-size-'' @ size @ '': '' @ size_e entry @ '';'' @ nl @
           ''$line-height-'' @ size @ '': '' @ lineHeight entry @ '';'' @ nl @
           ''$font-weight-'' @ size @ '': '' @ weight entry @ '';'' @ nl) (typography ds)) @
       nl @ ''// Spacing'' @ nl @
       concat (map (\<lambda>i. ''$spacing-'' @ num (int i + 1) @ '': '' @ spacing ds ! i @ '';'' @ nl)
         [0..<length (spacing ds)]) @
       nl @ ''// Border Radius'' @ nl @
       concat (map (\<lambda>i.
           ''$border-radius-'' @ num (int i) @ '': '' @ borderRadius ds ! i @ '';'' @ nl)
         [0..<length (borderRadius ds)])"
    by (rule generateSCSSVariables_text)
next
  show "generateTokensStudio ds = JSON_stringify
       (JObject [(''global'', JObject
          [(''colors'', JObject (map (\<lambda>(role, shades).
              (role, JObject (map (\<lambda>(step, val).
                 (step, JObject [(''value'', JString val), (''type'', JString ''color'')]))
                 shades))) (colors ds))),
           (''typography'', JObject (map (\<lambda>(size, entry).
              (size, JObject
                 [(''value'', JObject
                     [(''fontSize'', JString (size_e entry)),
                      (''lineHeight'', JString (lineHeight entry)),
                      (''fontWeight'', JString (weight entry)),
                      (''fontFamily'', JString (fontFamily ds))]),
                  (''type'', JString ''typography'')])) (typography ds))),
           (''spacing'', JObject (map (\<lambda>i. (num (int i + 1),
                JObject [(''value'', JString (spacing ds ! i)), (''type'', JString ''spacing'')]))
              [0..<length (spacing ds)])),
           (''borderRadius'', JObject (map (\<lambda>i. (num (int i),
                JObject [(''value'', JString (borderRadius ds ! i)),
                         (''type'', JString ''borderRadius'')]))
              [0..<length (borderRadius ds)]))])])"
    unfolding generateTokensStudio_def tokensStudio_entries [OF assms] ..
qed

lemma generateRandomPalette_keys:
  "map fst (generateRandomPalette r) = role_names"
  "list_all (\<lambda>shades. map fst shades = step_keys) (map snd (generateRandomPalette r))"
  by (simp_all add: generateRandomPalette_def Let_def obj_literal_roles role_names_def
      generateColorShade_keys)

lemma defaultTypography_keys: "map fst defaultTypography = size_keys"
  by (simp add: defaultTypography_def obj_literal_names size_keys_def is_array_index_def
      is_digit_def)

lemma initialDesignSystem_wf: "wf_DesignSystem (initialDesignSystem r)"
  by (simp add: wf_DesignSystem_def initialDesignSystem_def generateRandomPalette_keys
      defaultTypography_keys)

lemma generateRandomSystem_wf: "wf_DesignSystem (generateRandomSystem r1 r2 r3)"
  by (simp add: wf_DesignSystem_def generateRandomSystem_def Let_def generateRandomPalette_keys
      defaultTypography_keys)

lemma num_digits:
  "num 0 = ''0''" "num 1 = ''1''" "num 2 = ''2''" "num 3 = ''3''" "num 4 = ''4''"
  "num 5 = ''5''" "num 6 = ''6''" "num 7 = ''7''" "num 8 = ''8''" "num 9 = ''9''"
  "num 10 = ''10''"
  by (simp_all add: num_def show_nat.simps digit_char_def)

theorem export_index_keys_witness:
  "wf_DesignSystem (initialDesignSystem (1 / 2)) \<and>
   generateCSS (initialDesignSystem (1 / 2)) = css_root_block
     (concat (map (\<lambda>(role, shades). map (\<lambda>(step, val). (role @ ''-'' @ step, val)) shades)
        (generateRandomPalette (1 / 2))) @
      concat (map (\<lambda>(size, entry).
          [(''text-'' @ size, size_e entry), (''leading-'' @ size, lineHeight entry),
           (''weight-'' @ size, weight entry)]) defaultTypography) @
      [(''spacing-1'', ''4px''), (''spacing-2'', ''8px''), (''spacing-3'', ''12px''),
       (''spacing-4'', ''16px''), (''spacing-5'', ''20px''), (''spacing-6'', ''24px''),
       (''spacing-7'', ''32px''), (''spacing-8'', ''40px''), (''spacing-9'', ''48px''),
       (''spacing-10'', ''64px''),
       (''radius-0'', ''0px''), (''radius-1'', ''4px''), (''radius-2'', ''8px''),
       (''radius-3'', ''12px''), (''radius-4'', ''16px''), (''radius-5'', ''24px''),
       (''font-family'', ''Inter, sans-serif'')])"
proof -
  have idx: "[0..<10] = [0, 1, 2, 3, 4, 5, 6, 7, 8, 9]" "[0..<6] = [0, 1, 2, 3, 4, 5]"
    by (simp_all add: upt_rec)
  have len: "length (spacing (initialDesignSystem (1 / 2))) = 10"
    "length (borderRadius (initialDesignSystem (1 / 2))) = 6"
    by (simp_all add: initialDesignSystem_def)
  note css = export_index_keys [OF initialDesignSystem_wf [of "1 / 2"],
      THEN conjunct2, THEN conjunct1, unfolded len idx]
  have fields: "colors (initialDesignSystem (1 / 2)) = generateRandomPalette (1 / 2)"
    "typography (initialDesignSystem (1 / 2)) = defaultTypography"
    "spacing (initialDesignSystem (1 / 2)) =
      [''4px'', ''8px'', ''12px'', ''16px'', ''20px'', ''24px'', ''32px'', ''40px'', ''48px'',
       ''64px'']"
    "borderRadius (initialDesignSystem (1 / 2)) =
      [''0px'', ''4px'', ''8px'', ''12px'', ''16px'', ''24px'']"
    "fontFamily (initialDesignSystem (1 / 2)) = ''Inter, sans-serif''"
    by (simp_all add: initialDesignSystem_def fontFamilies_def)
  have "generateCSS (initialDesignSystem (1 / 2)) = css_root_block
     (concat (map (\<lambda>(role, shades). map (\<lambda>(step, val). (role @ ''-'' @ step, val)) shades)
        (generateRandomPalette (1 / 2))) @
      concat (map (\<lambda>(size, entry).
          [(''text-'' @ size, size_e entry), (''leading-'' @ size, lineHeight entry),
           (''weight-'' @ size, weight entry)]) defaultTypography) @
      [(''spacing-1'', ''4px''), (''spacing-2'', ''8px''), (''spacing-3'', ''12px''),
       (''spacing-4'', ''16px''), (''spacing-5'', ''20px''), (''spacing-6'', ''24px''),
       (''spacing-7'', ''32px''), (''spacing-8'', ''40px''), (''spacing-9'', ''48px''),
       (''spacing-10'', ''64px''),
       (''radius-0'', ''0px''), (''radius-1'', ''4px''), (''radius-2'', ''8px''),
       (''radius-3'', ''12px''), (''radius-4'', ''16px''), (''radius-5'', ''24px''),
       (''font-family'', ''Inter, sans-serif'')])"
    unfolding css fields by (simp add: num_digits)
  then show ?thesis by (simp add: initialDesignSystem_wf)
qed


end
